theory Spec2Isabelle
  imports Main "HOL-Library.Word"
begin

unbundle bit_operations_syntax

section \<open>File upload and retrieval handlers of api4 (file.go)\<close>

text \<open>
  The development embeds the HTTP handlers of \<^verbatim>\<open>api4/file.go\<close>. Two revisions of
  that file are in the repository: the one stored as \<^verbatim>\<open>src/api4/file.go\<close>, whose
  multipart ingestor is a single streaming loop, and the one stored after the tests in
  \<^verbatim>\<open>src/unnamed/part_001\<close>, whose ingestor has a buffered pre-scan mode and a fully
  buffered fallback. Functions of the first keep their names; functions of the second
  that share a name carry the suffix \<open>_r2\<close>. The retrieval handlers are the same in
  both.

  Strings are byte strings (\<^typ>\<open>string\<close>), as Go's are.
\<close>

subsection \<open>Errors, file metadata, collaborators\<close>

text \<open>
  \<^verbatim>\<open>model.AppError\<close>, reduced to the arguments the handlers pass to
  \<^verbatim>\<open>model.NewAppError\<close>: where, id, details, status code.
  Modelled from the spec: \<^verbatim>\<open>Context.SetInvalidParam\<close> and
  \<^verbatim>\<open>Context.SetPermissionError\<close> are not in the source tree; they are kept as
  constructors of their own, with the status codes the error taxonomy gives them
  (InvalidParam 400, Forbidden 403).
\<close>

datatype AppError =
    NewAppError string string string nat
  | InvalidParam string
  | PermissionError string

fun StatusCode :: "AppError \<Rightarrow> nat" where
  "StatusCode (NewAppError w i d n) = n"
| "StatusCode (InvalidParam p) = 400"
| "StatusCode (PermissionError p) = 403"

text \<open>The assignment \<^verbatim>\<open>c.Err.StatusCode = http.StatusNotFound\<close>.\<close>

fun set_StatusCode :: "nat \<Rightarrow> AppError \<Rightarrow> AppError" where
  "set_StatusCode n (NewAppError w i d m) = NewAppError w i d n"
| "set_StatusCode n (InvalidParam p) = NewAppError ''Context'' p [] n"
| "set_StatusCode n (PermissionError p) = NewAppError ''Permissions'' p [] n"

definition StatusBadRequest :: nat where "StatusBadRequest = 400"
definition StatusNotFound :: nat where "StatusNotFound = 404"
definition StatusRequestEntityTooLarge :: nat where "StatusRequestEntityTooLarge = 413"
definition StatusInternalServerError :: nat where "StatusInternalServerError = 500"
definition StatusNotImplemented :: nat where "StatusNotImplemented = 501"

text \<open>The fields of \<^verbatim>\<open>model.FileInfo\<close> that the handlers read.\<close>

record FileInfo =
  Id :: string
  CreatorId :: string
  PostId :: string
  Path :: string
  ThumbnailPath :: string
  PreviewPath :: string
  Name :: string
  MimeType :: string
  Size :: int

text \<open>
  An \<^verbatim>\<open>io.Reader\<close>: the bytes it delivers and, when reading fails after them, the
  error; \<open>None\<close> is a clean end of file. A body that ends before it is complete
  is \<open>UnexpectedEOF\<close>; any other failure of the connection carries its text.
\<close>

datatype read_error = UnexpectedEOF | ReadError string

fun error_text :: "read_error \<Rightarrow> string" where
  "error_text UnexpectedEOF = ''unexpected EOF''"
| "error_text (ReadError e) = e"

datatype reader = Reader (bytes: string) (failure: "read_error option")

text \<open>\<^verbatim>\<open>app.UploadFileContext\<close>, as the handlers fill it in.\<close>

record UploadFileContext =
  Timestamp :: int
  TeamId :: string
  ChannelId :: string
  UserId :: string
  ClientId :: string
  Name :: string
  ContentLength :: int
  Input :: reader

record FileUploadResponse =
  FileInfos :: "FileInfo list"
  ClientIds :: "string list"

text \<open>
  The part of \<^verbatim>\<open>*Context\<close> the handlers use: \<^verbatim>\<open>c.Params.ChannelId\<close>,
  \<^verbatim>\<open>c.Params.Filename\<close>, \<^verbatim>\<open>c.Params.FileId\<close> and \<^verbatim>\<open>c.Session.UserId\<close>.
  \<^verbatim>\<open>c.Err\<close> is the \<open>Failed\<close> result of a handler.
\<close>

record Context =
  ChannelId :: string
  Filename :: string
  FileId :: string
  UserId :: string

text \<open>
  \<^verbatim>\<open>multipart.FileHeader\<close> and \<^verbatim>\<open>multipart.Form\<close>: a buffered file part with its
  name and bytes, and the parsed form with its values and files grouped by field name,
  each group in the order of arrival.
\<close>

record FileHeader =
  Filename :: string
  content :: string

record Form =
  Value :: "string \<Rightarrow> string list"
  File :: "string \<Rightarrow> FileHeader list"

text \<open>
  The collaborators, which are outside the source tree, are parameters: the file
  settings of the configuration, the permission predicates (of a session, given by its
  user id, on a channel, to upload, and on the channel of a post, to read), the checks behind
  \<^verbatim>\<open>c.RequireChannelId\<close>, \<^verbatim>\<open>c.RequireFilename\<close> and \<^verbatim>\<open>c.RequireFileId\<close>, and
  the operations of \<^verbatim>\<open>App\<close>, which run on the state \<open>'s\<close> of the stores.
  \<open>UploadFile\<close>, and \<open>UploadFiles\<close> and \<open>UploadMultipartFiles\<close> of the older
  handler, may change that state; the lookups only read it.
\<close>

record 's App =
  EnableFileAttachments :: bool
  MaxFileSize :: int
  EnablePublicLink :: bool
  PublicLinkSalt :: string
  StorageDriver :: string
  SessionHasPermissionToChannel :: "string \<Rightarrow> string \<Rightarrow> bool"
  SessionHasPermissionToChannelByPost :: "string \<Rightarrow> string \<Rightarrow> bool"
  ValidChannelId :: "string \<Rightarrow> bool"
  ValidFilename :: "string \<Rightarrow> bool"
  ValidFileId :: "string \<Rightarrow> bool"
  UploadFile :: "'s \<Rightarrow> UploadFileContext \<Rightarrow> (AppError + FileInfo) \<times> 's"
  UploadFiles :: "'s \<Rightarrow> string \<Rightarrow> string \<Rightarrow> string \<Rightarrow> reader list \<Rightarrow> string list
                    \<Rightarrow> string list \<Rightarrow> int \<Rightarrow> (AppError + FileUploadResponse) \<times> 's"
  UploadMultipartFiles :: "'s \<Rightarrow> string \<Rightarrow> string \<Rightarrow> string \<Rightarrow> FileHeader list
                    \<Rightarrow> string list \<Rightarrow> int \<Rightarrow> (AppError + FileUploadResponse) \<times> 's"
  GetFileInfo :: "'s \<Rightarrow> string \<Rightarrow> AppError + FileInfo"
  FileReader :: "'s \<Rightarrow> string \<Rightarrow> AppError + string"
  GeneratePublicLinkHash :: "string \<Rightarrow> string \<Rightarrow> string"

definition FILE_TEAM_ID :: string where
  "FILE_TEAM_ID = ''noteam''"

definition UNSAFE_CONTENT_TYPES :: "string list" where
  "UNSAFE_CONTENT_TYPES =
     [''application/javascript'', ''application/ecmascript'', ''text/javascript'',
      ''text/ecmascript'', ''application/x-javascript'', ''text/html'']"

definition MEDIA_CONTENT_TYPES :: "string list" where
  "MEDIA_CONTENT_TYPES =
     [''image/jpeg'', ''image/png'', ''image/bmp'', ''image/gif'', ''video/avi'',
      ''video/mpeg'', ''video/mp4'', ''audio/mpeg'', ''audio/wav'']"

subsection \<open>Library functions the handlers call\<close>

text \<open>\<^verbatim>\<open>strings.HasPrefix(s, prefix)\<close>.\<close>

definition HasPrefix :: "string \<Rightarrow> string \<Rightarrow> bool" where
  "HasPrefix s p \<longleftrightarrow> take (length p) s = p"

text \<open>\<^verbatim>\<open>strconv.Itoa\<close>: decimal digits, a minus sign for negative numbers.\<close>

definition digit :: "nat \<Rightarrow> char" where
  "digit n = char_of (48 + n)"

function Itoa_nat :: "nat \<Rightarrow> string" where
  "Itoa_nat n = (if n < 10 then [digit n] else Itoa_nat (n div 10) @ [digit (n mod 10)])"
  by pat_completeness auto
termination
  by (relation "measure id") auto

definition Itoa :: "int \<Rightarrow> string" where
  "Itoa i = (if i < 0 then CHR ''-'' # Itoa_nat (nat (- i)) else Itoa_nat (nat i))"

text \<open>
  \<^verbatim>\<open>url.PathEscape\<close>: every byte is written as \<open>%XX\<close> except letters, digits and
  the characters \<^verbatim>\<open>-_.~$&+=:@\<close>.
\<close>

definition hex :: "nat \<Rightarrow> char" where
  "hex n = ''0123456789ABCDEF'' ! n"

definition shouldEscape :: "char \<Rightarrow> bool" where
  "shouldEscape ch \<longleftrightarrow>
     (let n = (of_char ch :: nat) in
      \<not> ((97 \<le> n \<and> n \<le> 122) \<or> (65 \<le> n \<and> n \<le> 90) \<or> (48 \<le> n \<and> n \<le> 57)
         \<or> ch \<in> set ''-_.~$&+=:@''))"

definition PathEscape :: "string \<Rightarrow> string" where
  "PathEscape s =
     concat (map (\<lambda>ch. if shouldEscape ch
                         then [CHR ''%'', hex (of_char ch div 16), hex (of_char ch mod 16)]
                         else [ch]) s)"

text \<open>
  \<^verbatim>\<open>subtle.ConstantTimeCompare\<close> on byte slices. Slices of different lengths give 0
  at once. Otherwise the loop visits every index, accumulating the OR of the XORs of
  the bytes, whatever the bytes are; the count of bytes visited is returned beside the
  accumulator, as the measure of the work done. \<^verbatim>\<open>ConstantTimeByteEq\<close> is the
  branch-free test \<^verbatim>\<open>int((uint32(x^y) - 1) >> 31)\<close>.
\<close>

definition to_bytes :: "string \<Rightarrow> 8 word list" where
  "to_bytes s = map (\<lambda>ch. word_of_nat (of_char ch)) s"

fun ctc_loop :: "8 word \<Rightarrow> nat \<Rightarrow> 8 word list \<Rightarrow> 8 word list \<Rightarrow> 8 word \<times> nat" where
  "ctc_loop v n (a # x) (b # y) = ctc_loop (v OR (a XOR b)) (Suc n) x y"
| "ctc_loop v n x y = (v, n)"

definition ConstantTimeByteEq :: "8 word \<Rightarrow> 8 word \<Rightarrow> int" where
  "ConstantTimeByteEq x y = uint (drop_bit 31 ((ucast (x XOR y) :: 32 word) - 1))"

definition ConstantTimeCompare_work :: "8 word list \<Rightarrow> 8 word list \<Rightarrow> int \<times> nat" where
  "ConstantTimeCompare_work x y =
     (if length x \<noteq> length y then (0, 0)
      else case ctc_loop 0 0 x y of (v, n) \<Rightarrow> (ConstantTimeByteEq v 0, n))"

definition ConstantTimeCompare :: "8 word list \<Rightarrow> 8 word list \<Rightarrow> int" where
  "ConstantTimeCompare x y = fst (ConstantTimeCompare_work x y)"

subsection \<open>Serving a file: writeFileResponse and getPublicFile\<close>

text \<open>
  What a handler leaves in the \<^verbatim>\<open>http.ResponseWriter\<close>: the headers it set and
  the body it wrote.
\<close>

definition dquote :: string where "dquote = [CHR 0x22]"
definition squote :: string where "squote = [CHR 0x27]"

record file_response =
  Header :: "string \<rightharpoonup> string"
  Written :: string

definition writeFileResponse ::
    "string \<Rightarrow> string \<Rightarrow> int \<Rightarrow> string \<Rightarrow> bool \<Rightarrow> file_response" where
  "writeFileResponse filename contentType contentSize fileReader forceDownload =
     (let h0 = [''Cache-Control'' \<mapsto> ''max-age=2592000, private'',
                ''X-Content-Type-Options'' \<mapsto> ''nosniff''];
          h1 = (if contentSize > 0 then h0(''Content-Length'' \<mapsto> Itoa contentSize) else h0);
          contentType' =
            (if contentType = [] then ''application/octet-stream''
             else if list_ex (HasPrefix contentType) UNSAFE_CONTENT_TYPES then ''text/plain''
             else contentType);
          h2 = h1(''Content-Type'' \<mapsto> contentType');
          toDownload =
            (if forceDownload then True
             else \<not> list_ex (HasPrefix contentType') MEDIA_CONTENT_TYPES);
          filename' = PathEscape filename;
          h3 = (if toDownload
                then h2(''Content-Disposition'' \<mapsto>
                       ''attachment;filename='' @ dquote @ filename' @ dquote
                         @ ''; filename*=UTF-8'' @ squote @ squote @ filename')
                else h2(''Content-Disposition'' \<mapsto>
                       ''inline;filename='' @ dquote @ filename' @ dquote
                         @ ''; filename*=UTF-8'' @ squote @ squote @ filename'));
          h4 = h3(''X-Frame-Options'' \<mapsto> ''DENY'',
                  ''Content-Security-Policy'' \<mapsto> ''Frame-ancestors '' @ squote @ ''none'' @ squote)
      in \<lparr>Header = h4, Written = fileReader\<rparr>)"

text \<open>
  The outcome of \<^verbatim>\<open>getPublicFile\<close>: the file is served; \<^verbatim>\<open>c.Err\<close> is set and the
  handler returns; \<^verbatim>\<open>c.Err\<close> is set and the error page is rendered; or the handler
  panics. The last happens when \<^verbatim>\<open>FileReader\<close> fails: the handler sets the error
  but does not return, and goes on to use the reader it did not get.
\<close>

definition public_invalid :: AppError where
  "public_invalid = NewAppError ''getPublicFile''
     ''api.file.get_file.public_invalid.app_error'' [] StatusBadRequest"

datatype get_result =
    Served file_response
  | Failed_get AppError
  | ErrorPage AppError
  | Panic AppError

definition getPublicFile :: "'s App \<Rightarrow> Context \<Rightarrow> string \<Rightarrow> 's \<Rightarrow> get_result" where
  "getPublicFile app c hash s =
     (if \<not> ValidFileId app (FileId c) then Failed_get (InvalidParam ''file_id'')
      else if \<not> EnablePublicLink app
        then Failed_get (NewAppError ''getPublicFile''
               ''api.file.get_public_link.disabled.app_error'' [] StatusNotImplemented)
      else (case GetFileInfo app s (FileId c) of
        Inl err \<Rightarrow> Failed_get err
      | Inr info \<Rightarrow>
          if length hash = 0 then ErrorPage public_invalid
          else if ConstantTimeCompare (to_bytes hash)
                    (to_bytes (GeneratePublicLinkHash app (Id info) (PublicLinkSalt app))) \<noteq> 1
            then ErrorPage public_invalid
          else (case FileReader app s (Path info) of
            Inl err \<Rightarrow> Panic (set_StatusCode StatusNotFound err)
          | Inr fileReader \<Rightarrow>
              Served (writeFileResponse (FileInfo.Name info) (MimeType info) (Size info)
                        fileReader False))))"

text \<open>
  The handlers behind a session: \<^verbatim>\<open>getFile\<close>, \<^verbatim>\<open>getFileThumbnail\<close> and
  \<^verbatim>\<open>getFilePreview\<close>. The argument \<open>download\<close> is the value of the query
  parameter of that name, empty when it is absent; \<^verbatim>\<open>strconv.ParseBool\<close> reads it,
  and what it does not accept counts as false. Thumbnails and previews are served with
  the constant type \<^verbatim>\<open>image/jpeg\<close> and no length.
\<close>

definition ParseBool :: "string \<Rightarrow> bool option" where
  "ParseBool str =
     (if str \<in> set [''1'', ''t'', ''T'', ''TRUE'', ''true'', ''True''] then Some True
      else if str \<in> set [''0'', ''f'', ''F'', ''FALSE'', ''false'', ''False''] then Some False
      else None)"

definition PREVIEW_IMAGE_TYPE :: string where
  "PREVIEW_IMAGE_TYPE = ''image/jpeg''"

definition THUMBNAIL_IMAGE_TYPE :: string where
  "THUMBNAIL_IMAGE_TYPE = ''image/jpeg''"

definition PERMISSION_READ_CHANNEL :: string where
  "PERMISSION_READ_CHANNEL = ''read_channel''"

definition getFile :: "'s App \<Rightarrow> Context \<Rightarrow> string \<Rightarrow> 's \<Rightarrow> get_result" where
  "getFile app c download s =
     (if \<not> ValidFileId app (FileId c) then Failed_get (InvalidParam ''file_id'')
      else
        (let forceDownload = (case ParseBool download of None \<Rightarrow> False | Some b \<Rightarrow> b) in
         case GetFileInfo app s (FileId c) of
           Inl err \<Rightarrow> Failed_get err
         | Inr info \<Rightarrow>
             if CreatorId info \<noteq> Context.UserId c
                \<and> \<not> SessionHasPermissionToChannelByPost app (Context.UserId c) (PostId info)
               then Failed_get (PermissionError PERMISSION_READ_CHANNEL)
             else
               (case FileReader app s (Path info) of
                  Inl err \<Rightarrow> Failed_get (set_StatusCode StatusNotFound err)
                | Inr fileReader \<Rightarrow>
                    Served (writeFileResponse (FileInfo.Name info) (MimeType info) (Size info)
                              fileReader forceDownload))))"

definition getFileThumbnail :: "'s App \<Rightarrow> Context \<Rightarrow> string \<Rightarrow> 's \<Rightarrow> get_result" where
  "getFileThumbnail app c download s =
     (if \<not> ValidFileId app (FileId c) then Failed_get (InvalidParam ''file_id'')
      else
        (let forceDownload = (case ParseBool download of None \<Rightarrow> False | Some b \<Rightarrow> b) in
         case GetFileInfo app s (FileId c) of
           Inl err \<Rightarrow> Failed_get err
         | Inr info \<Rightarrow>
             if CreatorId info \<noteq> Context.UserId c
                \<and> \<not> SessionHasPermissionToChannelByPost app (Context.UserId c) (PostId info)
               then Failed_get (PermissionError PERMISSION_READ_CHANNEL)
             else if ThumbnailPath info = []
               then Failed_get (NewAppError ''getFileThumbnail''
                      ''api.file.get_file_thumbnail.no_thumbnail.app_error''
                      (''file_id='' @ Id info) StatusBadRequest)
             else
               (case FileReader app s (ThumbnailPath info) of
                  Inl err \<Rightarrow> Failed_get (set_StatusCode StatusNotFound err)
                | Inr fileReader \<Rightarrow>
                    Served (writeFileResponse (FileInfo.Name info) THUMBNAIL_IMAGE_TYPE 0
                              fileReader forceDownload))))"

definition getFilePreview :: "'s App \<Rightarrow> Context \<Rightarrow> string \<Rightarrow> 's \<Rightarrow> get_result" where
  "getFilePreview app c download s =
     (if \<not> ValidFileId app (FileId c) then Failed_get (InvalidParam ''file_id'')
      else
        (let forceDownload = (case ParseBool download of None \<Rightarrow> False | Some b \<Rightarrow> b) in
         case GetFileInfo app s (FileId c) of
           Inl err \<Rightarrow> Failed_get err
         | Inr info \<Rightarrow>
             if CreatorId info \<noteq> Context.UserId c
                \<and> \<not> SessionHasPermissionToChannelByPost app (Context.UserId c) (PostId info)
               then Failed_get (PermissionError PERMISSION_READ_CHANNEL)
             else if PreviewPath info = []
               then Failed_get (NewAppError ''getFilePreview''
                      ''api.file.get_file_preview.no_preview.app_error''
                      (''file_id='' @ Id info) StatusBadRequest)
             else
               (case FileReader app s (PreviewPath info) of
                  Inl err \<Rightarrow> Failed_get (set_StatusCode StatusNotFound err)
                | Inr fileReader \<Rightarrow>
                    Served (writeFileResponse (FileInfo.Name info) PREVIEW_IMAGE_TYPE 0
                              fileReader forceDownload))))"

subsection \<open>Requests and multipart bodies\<close>

text \<open>
  A part of a multipart body: what \<^verbatim>\<open>p.FormName()\<close> and \<^verbatim>\<open>p.FileName()\<close> return,
  and the part as a reader. \<^verbatim>\<open>mr.NextPart()\<close> yields the parts one by one; it fails
  where the body is malformed or the connection breaks, and the end of the list is
  \<^verbatim>\<open>io.EOF\<close>. A part whose own reader fails leaves the body broken: the next call of
  \<^verbatim>\<open>NextPart\<close>, which has to skip to the end of that part, fails too, with the
  error the library makes of what the underlying reader then gives it: the end of
  input where the body was cut short, the error of the connection otherwise.
\<close>

record part =
  FormName :: string
  FileName :: string
  Content :: reader

datatype event = Part part | NextPartError string

fun NextPart_text :: "read_error \<Rightarrow> string" where
  "NextPart_text UnexpectedEOF = ''multipart: NextPart: EOF''"
| "NextPart_text (ReadError e) = ''multipart: NextPart: '' @ e"

definition rest :: "part \<Rightarrow> event list \<Rightarrow> event list" where
  "rest p ps =
     (case failure (Content p) of None \<Rightarrow> ps | Some e \<Rightarrow> [NextPartError (NextPart_text e)])"

fun weight :: "event list \<Rightarrow> nat" where
  "weight [] = 0"
| "weight (Part p # ps) = 2 + weight ps"
| "weight (NextPartError e # ps) = 1 + weight ps"

text \<open>
  The request: its \<^verbatim>\<open>ContentLength\<close>, the error of \<^verbatim>\<open>r.ParseForm()\<close> if it has
  one, and the body as \<^verbatim>\<open>r.MultipartReader()\<close> classifies it: not multipart
  (\<^verbatim>\<open>http.ErrNotMultipart\<close>, the body is one file), multipart, or another error.
\<close>

datatype body = NotMultipart reader | Multipart "event list" | MultipartError string

record Request =
  ContentLength :: int
  ParseFormError :: "string option"
  Body :: body

text \<open>
  What an upload handler leaves behind: status 201 with the response as JSON; an error
  in \<^verbatim>\<open>c.Err\<close>; or a plain \<^verbatim>\<open>http.Error\<close> with its status and text.
\<close>

datatype upload_result =
    Created FileUploadResponse
  | Failed AppError
  | HttpError nat string

text \<open>
  \<^verbatim>\<open>io.CopyN(&b, src, n)\<close>: the first \<open>n\<close> bytes and no error when the source has
  that many; otherwise all its bytes and \<^verbatim>\<open>io.EOF\<close>, or the error the source ends
  with.
\<close>

datatype io_error = NoError | EOF | IOError string

definition CopyN :: "reader \<Rightarrow> nat \<Rightarrow> string \<times> io_error" where
  "CopyN src n =
     (if n \<le> length (bytes src) then (take n (bytes src), NoError)
      else (bytes src, case failure src of None \<Rightarrow> EOF | Some e \<Rightarrow> IOError (error_text e)))"

definition maxValueBytes :: nat where
  "maxValueBytes = 10 * 1024"

text \<open>
  \<^verbatim>\<open>multipart.Reader.ReadForm(maxMemory)\<close> of the Go library: values are kept in
  memory, within a budget of \<open>maxMemory\<close> plus 10 MB; files up to the remaining
  \<open>maxMemory\<close> are kept in memory and give their size back to the value budget,
  larger ones go to a temporary file. Failures of the temporary file system are not
  modelled.
\<close>

function readForm :: "int \<Rightarrow> int \<Rightarrow> Form \<Rightarrow> event list \<Rightarrow> string + Form" where
  "readForm maxMemory maxValue form [] = Inr form"
| "readForm maxMemory maxValue form (NextPartError e # ps) = Inl e"
| "readForm maxMemory maxValue form (Part p # ps) =
     (if FormName p = [] then readForm maxMemory maxValue form (rest p ps)
      else if FileName p = [] then
        (case CopyN (Content p) (nat (maxValue + 1)) of
           (b, IOError e) \<Rightarrow> Inl e
         | (b, _) \<Rightarrow>
             if maxValue - int (length b) < 0 then Inl ''multipart: message too large''
             else readForm maxMemory (maxValue - int (length b))
                    (form\<lparr>Value := (Value form)(FormName p := Value form (FormName p) @ [b])\<rparr>)
                    (rest p ps))
      else
        (case CopyN (Content p) (nat (maxMemory + 1)) of
           (b, IOError e) \<Rightarrow> Inl e
         | (b, _) \<Rightarrow>
             if int (length b) > maxMemory then
               (case failure (Content p) of
                  Some e \<Rightarrow> Inl (error_text e)
                | None \<Rightarrow>
                    readForm maxMemory maxValue
                      (form\<lparr>File := (File form)(FormName p := File form (FormName p)
                          @ [\<lparr>Filename = FileName p, content = bytes (Content p)\<rparr>])\<rparr>)
                      (rest p ps))
             else
               readForm (maxMemory - int (length b)) (maxValue + int (length b))
                 (form\<lparr>File := (File form)(FormName p := File form (FormName p)
                     @ [\<lparr>Filename = FileName p, content = b\<rparr>])\<rparr>)
                 (rest p ps)))"
  by pat_completeness auto
termination
  by (relation "measure (\<lambda>(maxMemory, maxValue, form, ps). weight ps)")
     (auto simp: rest_def split: option.splits)

definition ReadForm :: "int \<Rightarrow> event list \<Rightarrow> string + Form" where
  "ReadForm maxMemory ps =
     readForm maxMemory (maxMemory + 10 * 2 ^ 20) \<lparr>Value = (\<lambda>k. []), File = (\<lambda>k. [])\<rparr> ps"

subsection \<open>The multipart ingestor of src/api4/file.go\<close>

text \<open>
  The variables of the loop of \<^verbatim>\<open>uploadFileMultipart\<close>: the context, whose
  \<^verbatim>\<open>Params.ChannelId\<close> a \<^verbatim>\<open>channel_id\<close> field overwrites, the queue of client ids
  not yet given to a file, the flag that a \<^verbatim>\<open>client_ids\<close> field has been seen, the
  response built so far, and the state of the stores.
\<close>

record 's mp_state =
  ctx_r1 :: Context
  clientIds_r1 :: "string list"
  haveClientIds :: bool
  resp_r1 :: FileUploadResponse
  store_r1 :: 's

definition error_read_part :: AppError where
  "error_read_part = NewAppError ''uploadFileMultipart''
     ''api.file.upload_file.error_read_part.app_error'' [] StatusBadRequest"

definition incorrect_number_of_files :: "string \<Rightarrow> AppError" where
  "incorrect_number_of_files wh = NewAppError wh
     ''api.file.upload_file.incorrect_number_of_files.app_error'' [] StatusBadRequest"

definition PERMISSION_UPLOAD_FILE :: string where
  "PERMISSION_UPLOAD_FILE = ''upload_file''"

function uploadFileMultipart_loop ::
    "'s App \<Rightarrow> int \<Rightarrow> 's mp_state \<Rightarrow> event list \<Rightarrow> upload_result \<times> 's" where
  "uploadFileMultipart_loop app timestamp st [] =
     (if haveClientIds st \<and> length (clientIds_r1 st) \<noteq> 0
      then (Failed (incorrect_number_of_files ''uploadFileMultipart''), store_r1 st)
      else (Created (resp_r1 st), store_r1 st))"
| "uploadFileMultipart_loop app timestamp st (NextPartError e # ps) =
     (Failed error_read_part, store_r1 st)"
| "uploadFileMultipart_loop app timestamp st (Part p # ps) =
     (if FormName p = [] then uploadFileMultipart_loop app timestamp st (rest p ps)
      else if FileName p = [] then
        (case CopyN (Content p) maxValueBytes of
           (v, IOError e) \<Rightarrow> (Failed error_read_part, store_r1 st)
         | (v, _) \<Rightarrow>
             if FormName p = ''channel_id'' then
               uploadFileMultipart_loop app timestamp
                 (st\<lparr>ctx_r1 := (if v \<noteq> [] then (ctx_r1 st)\<lparr>Context.ChannelId := v\<rparr> else ctx_r1 st)\<rparr>)
                 (rest p ps)
             else if FormName p = ''client_ids'' then
               uploadFileMultipart_loop app timestamp
                 (st\<lparr>haveClientIds := True, clientIds_r1 := clientIds_r1 st @ [v]\<rparr>) (rest p ps)
             else (Failed (InvalidParam ''formname''), store_r1 st))
      else if \<not> ValidChannelId app (Context.ChannelId (ctx_r1 st))
        then (Failed (InvalidParam ''channel_id''), store_r1 st)
      else if \<not> SessionHasPermissionToChannel app (Context.UserId (ctx_r1 st))
                  (Context.ChannelId (ctx_r1 st))
        then (Failed (PermissionError PERMISSION_UPLOAD_FILE), store_r1 st)
      else
        (let clientId = (if length (clientIds_r1 st) > 0 then hd (clientIds_r1 st) else []);
             clientIds' = (if length (clientIds_r1 st) > 0 then tl (clientIds_r1 st) else clientIds_r1 st)
         in if haveClientIds st \<and> clientId = []
            then (Failed (incorrect_number_of_files ''uploadFileMultipart''), store_r1 st)
            else
              (case UploadFile app (store_r1 st)
                      \<lparr>Timestamp = timestamp, TeamId = FILE_TEAM_ID,
                       ChannelId = Context.ChannelId (ctx_r1 st), UserId = Context.UserId (ctx_r1 st),
                       ClientId = clientId, Name = FileName p, ContentLength = - 1,
                       Input = Content p\<rparr> of
                 (Inl appErr, s') \<Rightarrow> (Failed appErr, s')
               | (Inr info, s') \<Rightarrow>
                   uploadFileMultipart_loop app timestamp
                     (st\<lparr>clientIds_r1 := clientIds',
                        resp_r1 := (resp_r1 st)\<lparr>FileInfos := FileInfos (resp_r1 st) @ [info],
                                  ClientIds := (if haveClientIds st
                                                then ClientIds (resp_r1 st) @ [clientId]
                                                else ClientIds (resp_r1 st))\<rparr>,
                        store_r1 := s'\<rparr>)
                     (rest p ps))))"
  by pat_completeness auto
termination
  by (relation "measure (\<lambda>(app, timestamp, st, ps). weight ps)")
     (auto simp: rest_def split: option.splits)

definition uploadFileMultipart ::
    "'s App \<Rightarrow> Context \<Rightarrow> event list \<Rightarrow> int \<Rightarrow> 's \<Rightarrow> upload_result \<times> 's" where
  "uploadFileMultipart app c mr timestamp s =
     uploadFileMultipart_loop app timestamp
       \<lparr>ctx_r1 = c, clientIds_r1 = [], haveClientIds = False,
        resp_r1 = \<lparr>FileInfos = [], ClientIds = []\<rparr>, store_r1 = s\<rparr> mr"

text \<open>
  The simple POST, shared by both revisions of \<^verbatim>\<open>uploadFileStream\<close>: the body is the
  file and the metadata are the URL parameters.
\<close>

definition simple_post :: "'s App \<Rightarrow> Context \<Rightarrow> Request \<Rightarrow> reader \<Rightarrow> int \<Rightarrow> 's
    \<Rightarrow> upload_result \<times> 's" where
  "simple_post app c r rd timestamp s =
     (if \<not> ValidChannelId app (Context.ChannelId c) then (Failed (InvalidParam ''channel_id''), s)
      else if \<not> ValidFilename app (Context.Filename c) then (Failed (InvalidParam ''filename''), s)
      else if \<not> SessionHasPermissionToChannel app (Context.UserId c) (Context.ChannelId c)
        then (Failed (PermissionError PERMISSION_UPLOAD_FILE), s)
      else
        (case UploadFile app s
                \<lparr>Timestamp = timestamp, TeamId = FILE_TEAM_ID,
                 ChannelId = Context.ChannelId c, UserId = Context.UserId c,
                 ClientId = [], Name = Context.Filename c,
                 ContentLength = Request.ContentLength r, Input = rd\<rparr> of
           (Inl appErr, s') \<Rightarrow> (Failed appErr, s')
         | (Inr info, s') \<Rightarrow> (Created \<lparr>FileInfos = [info], ClientIds = []\<rparr>, s')))"

definition attachments_disabled :: "string \<Rightarrow> AppError" where
  "attachments_disabled wh = NewAppError wh
     ''api.file.attachments.disabled.app_error'' [] StatusNotImplemented"

definition uploadFileStream ::
    "'s App \<Rightarrow> Context \<Rightarrow> Request \<Rightarrow> int \<Rightarrow> 's \<Rightarrow> upload_result \<times> 's" where
  "uploadFileStream app c r timestamp s =
     (if \<not> EnableFileAttachments app then (Failed (attachments_disabled ''uploadFile''), s)
      else
        (case ParseFormError r of
           Some e \<Rightarrow> (HttpError StatusBadRequest e, s)
         | None \<Rightarrow>
            (case Body r of
               Multipart mr \<Rightarrow> uploadFileMultipart app c mr timestamp s
             | NotMultipart rd \<Rightarrow> simple_post app c r rd timestamp s
             | MultipartError e \<Rightarrow> (HttpError StatusInternalServerError e, s))))"

text \<open>
  The older handler \<^verbatim>\<open>uploadFile\<close>, which no route uses any more. It parses the whole
  form first. Its deferred \<^verbatim>\<open>io.Copy(ioutil.Discard, r.Body)\<close> drains what is left of
  the body when the handler returns; that does not show in the result.
\<close>

definition uploadFile ::
    "'s App \<Rightarrow> Context \<Rightarrow> Request \<Rightarrow> int \<Rightarrow> 's \<Rightarrow> upload_result \<times> 's" where
  "uploadFile app c r now s =
     (if \<not> EnableFileAttachments app then (Failed (attachments_disabled ''uploadFile''), s)
      else if Request.ContentLength r > MaxFileSize app
        then (Failed (NewAppError ''uploadFile'' ''api.file.upload_file.too_large.app_error'' []
                StatusRequestEntityTooLarge), s)
      else
        (case ParseFormError r of
           Some e \<Rightarrow> (HttpError StatusInternalServerError e, s)
         | None \<Rightarrow>
            (case Body r of
               MultipartError e \<Rightarrow> (HttpError StatusInternalServerError e, s)
             | NotMultipart rd \<Rightarrow>
                 if \<not> ValidChannelId app (Context.ChannelId c)
                   then (Failed (InvalidParam ''channel_id''), s)
                 else if \<not> ValidFilename app (Context.Filename c)
                   then (Failed (InvalidParam ''filename''), s)
                 else if \<not> SessionHasPermissionToChannel app (Context.UserId c)
                             (Context.ChannelId c)
                   then (Failed (PermissionError PERMISSION_UPLOAD_FILE), s)
                 else
                   (case UploadFiles app s FILE_TEAM_ID (Context.ChannelId c) (Context.UserId c)
                           [rd] [Context.Filename c] [] now of
                      (Inl appErr, s') \<Rightarrow> (Failed appErr, s')
                    | (Inr resStruct, s') \<Rightarrow> (Created resStruct, s'))
             | Multipart mr \<Rightarrow>
                (case ReadForm (MaxFileSize app) mr of
                   Inl e \<Rightarrow> (HttpError StatusInternalServerError e, s)
                 | Inr m \<Rightarrow>
                     if length (Value m ''channel_id'') = 0
                       then (Failed (InvalidParam ''channel_id''), s)
                     else if \<not> ValidChannelId app (hd (Value m ''channel_id''))
                       then (Failed (InvalidParam ''channel_id''), s)
                     else if \<not> SessionHasPermissionToChannel app (Context.UserId c)
                                 (hd (Value m ''channel_id''))
                       then (Failed (PermissionError PERMISSION_UPLOAD_FILE), s)
                     else
                       (case UploadMultipartFiles app s FILE_TEAM_ID (hd (Value m ''channel_id''))
                               (Context.UserId c) (File m ''files'') (Value m ''client_ids'') now of
                          (Inl appErr, s') \<Rightarrow> (Failed appErr, s')
                        | (Inr resStruct, s') \<Rightarrow> (Created resStruct, s'))))))"

subsection \<open>The multipart ingestor of the second revision\<close>

definition read_request :: "string \<Rightarrow> string \<Rightarrow> nat \<Rightarrow> AppError" where
  "read_request wh details status = NewAppError wh
     ''api.file.upload_file.read_request.app_error'' details status"

text \<open>
  \<^verbatim>\<open>uploadFileMultipartBuffered\<close>: the whole message is parsed by \<^verbatim>\<open>ReadForm\<close>, then
  the files of the field \<^verbatim>\<open>files\<close> are uploaded in order, the \<open>i\<close>-th with the
  \<open>i\<close>-th client id. The index is in range: the lengths have been compared before
  the loop. \<^verbatim>\<open>fileHeader.Open()\<close> opens what \<^verbatim>\<open>ReadForm\<close> has just stored; its
  failure is not modelled.
\<close>

fun uploadFileMultipartBuffered_loop ::
    "'s App \<Rightarrow> int \<Rightarrow> Context \<Rightarrow> string list \<Rightarrow> nat \<Rightarrow> FileHeader list
      \<Rightarrow> FileUploadResponse \<Rightarrow> 's \<Rightarrow> upload_result \<times> 's" where
  "uploadFileMultipartBuffered_loop app timestamp c clientIds i [] resp s = (Created resp, s)"
| "uploadFileMultipartBuffered_loop app timestamp c clientIds i (fileHeader # fileHeaders) resp s =
     (let clientId = (if length clientIds > 0 then clientIds ! i else []) in
      case UploadFile app s
              \<lparr>Timestamp = timestamp, TeamId = FILE_TEAM_ID,
               ChannelId = Context.ChannelId c, UserId = Context.UserId c,
               ClientId = clientId, Name = Filename fileHeader, ContentLength = - 1,
               Input = Reader (content fileHeader) None\<rparr> of
        (Inl appErr, s') \<Rightarrow> (Failed appErr, s')
      | (Inr info, s') \<Rightarrow>
          uploadFileMultipartBuffered_loop app timestamp c clientIds (Suc i) fileHeaders
            (resp\<lparr>FileInfos := FileInfos resp @ [info],
                  ClientIds := (if clientId \<noteq> [] then ClientIds resp @ [clientId]
                                else ClientIds resp)\<rparr>) s')"

definition uploadFileMultipartBuffered ::
    "'s App \<Rightarrow> Context \<Rightarrow> event list \<Rightarrow> int \<Rightarrow> 's \<Rightarrow> upload_result \<times> 's" where
  "uploadFileMultipartBuffered app c mr timestamp s =
     (case ReadForm (MaxFileSize app) mr of
        Inl e \<Rightarrow>
          (Failed (read_request ''uploadFileMultipartiBuffered'' e StatusInternalServerError), s)
      | Inr form \<Rightarrow>
          if length (Value form ''channel_id'') = 0 then (Failed (InvalidParam ''channel_id''), s)
          else if \<not> ValidChannelId app (hd (Value form ''channel_id''))
            then (Failed (InvalidParam ''channel_id''), s)
          else if \<not> SessionHasPermissionToChannel app (Context.UserId c)
                      (hd (Value form ''channel_id''))
            then (Failed (PermissionError PERMISSION_UPLOAD_FILE), s)
          else if length (Value form ''client_ids'') \<noteq> 0
                  \<and> length (Value form ''client_ids'') \<noteq> length (File form ''files'')
            then (Failed (incorrect_number_of_files ''uploadFilesMultipartiBuffered''), s)
          else
            uploadFileMultipartBuffered_loop app timestamp
              (c\<lparr>Context.ChannelId := hd (Value form ''channel_id'')\<rparr>)
              (Value form ''client_ids'') 0 (File form ''files'')
              \<lparr>FileInfos = [], ClientIds = []\<rparr> s)"

definition streamMode :: bool where "streamMode = False"
definition bufferedMode :: bool where "bufferedMode = True"

text \<open>
  The variables of the loop of the second \<^verbatim>\<open>uploadFileMultipart\<close>. The function reads
  the body through a tee in buffered mode, so that it can start again from the first
  byte: \<open>whole\<close> is the body from its beginning, the last argument what is still to be
  read.
\<close>

record 's mp_state_r2 =
  ctx_r2 :: Context
  expectClientIds :: bool
  clientIds_r2 :: "string list"
  nFiles :: nat
  resp_r2 :: FileUploadResponse
  store_r2 :: 's

function uploadFileMultipart_r2_loop ::
    "'s App \<Rightarrow> int \<Rightarrow> bool \<Rightarrow> event list \<Rightarrow> 's mp_state_r2 \<Rightarrow> event list
      \<Rightarrow> upload_result \<times> 's" where
  "uploadFileMultipart_r2_loop app timestamp mode whole st [] =
     (if expectClientIds st \<and> length (clientIds_r2 st) \<noteq> nFiles st
      then (Failed (incorrect_number_of_files ''uploadFileMultipart''), store_r2 st)
      else (Created (resp_r2 st), store_r2 st))"
| "uploadFileMultipart_r2_loop app timestamp mode whole st (NextPartError e # ps) =
     (Failed (read_request ''uploadFileMultipart'' e StatusBadRequest), store_r2 st)"
| "uploadFileMultipart_r2_loop app timestamp mode whole st (Part p # ps) =
     (if FormName p = [] then uploadFileMultipart_r2_loop app timestamp mode whole st (rest p ps)
      else if FileName p = [] then
        (case CopyN (Content p) maxValueBytes of
           (v, IOError e) \<Rightarrow>
             (Failed (read_request ''uploadFileMultipart'' e StatusBadRequest), store_r2 st)
         | (v, _) \<Rightarrow>
             if FormName p = ''channel_id'' then
               (if mode = bufferedMode then
                  uploadFileMultipart_r2_loop app timestamp streamMode whole
                    \<lparr>ctx_r2 = (if v \<noteq> [] then (ctx_r2 st)\<lparr>Context.ChannelId := v\<rparr>
                               else ctx_r2 st),
                     expectClientIds = True, clientIds_r2 = [], nFiles = 0,
                     resp_r2 = \<lparr>FileInfos = [], ClientIds = []\<rparr>, store_r2 = store_r2 st\<rparr>
                    whole
                else
                  uploadFileMultipart_r2_loop app timestamp mode whole
                    (st\<lparr>ctx_r2 := (if v \<noteq> [] then (ctx_r2 st)\<lparr>Context.ChannelId := v\<rparr>
                                    else ctx_r2 st)\<rparr>)
                    (rest p ps))
             else if FormName p = ''client_ids'' then
               (if \<not> expectClientIds st then (Failed (InvalidParam ''client_ids''), store_r2 st)
                else uploadFileMultipart_r2_loop app timestamp mode whole
                       (st\<lparr>clientIds_r2 := clientIds_r2 st @ [v]\<rparr>) (rest p ps))
             else (Failed (InvalidParam ''formname''), store_r2 st))
      else if Context.ChannelId (ctx_r2 st) = [] \<and> mode = bufferedMode
        then uploadFileMultipartBuffered app (ctx_r2 st) whole timestamp (store_r2 st)
      else if \<not> ValidChannelId app (Context.ChannelId (ctx_r2 st))
        then (Failed (InvalidParam ''channel_id''), store_r2 st)
      else if \<not> SessionHasPermissionToChannel app (Context.UserId (ctx_r2 st))
                  (Context.ChannelId (ctx_r2 st))
        then (Failed (PermissionError PERMISSION_UPLOAD_FILE), store_r2 st)
      else
        (let expect = (if nFiles st = 0 \<and> length (clientIds_r2 st) = 0 then False
                       else expectClientIds st)
         in if expect \<and> nFiles st \<ge> length (clientIds_r2 st)
            then (Failed (InvalidParam ''client_ids''), store_r2 st)
            else
              (let clientId = (if expect then clientIds_r2 st ! nFiles st else []) in
               case UploadFile app (store_r2 st)
                      \<lparr>Timestamp = timestamp, TeamId = FILE_TEAM_ID,
                       ChannelId = Context.ChannelId (ctx_r2 st),
                       UserId = Context.UserId (ctx_r2 st),
                       ClientId = clientId, Name = FileName p, ContentLength = - 1,
                       Input = Content p\<rparr> of
                 (Inl appErr, s') \<Rightarrow> (Failed appErr, s')
               | (Inr info, s') \<Rightarrow>
                   uploadFileMultipart_r2_loop app timestamp mode whole
                     (st\<lparr>expectClientIds := expect,
                        nFiles := Suc (nFiles st),
                        resp_r2 := (resp_r2 st)\<lparr>FileInfos := FileInfos (resp_r2 st) @ [info],
                                     ClientIds := (if expect
                                                   then ClientIds (resp_r2 st) @ [clientId]
                                                   else ClientIds (resp_r2 st))\<rparr>,
                        store_r2 := s'\<rparr>)
                     (rest p ps))))"
  by pat_completeness auto
termination
  by (relation "measures [\<lambda>(app, timestamp, mode, whole, st, ps). if mode then 1 else 0,
                          \<lambda>(app, timestamp, mode, whole, st, ps). weight ps]")
     (auto simp: rest_def streamMode_def bufferedMode_def split: option.splits)

definition uploadFileMultipart_r2 ::
    "'s App \<Rightarrow> Context \<Rightarrow> event list \<Rightarrow> int \<Rightarrow> bool \<Rightarrow> 's \<Rightarrow> upload_result \<times> 's" where
  "uploadFileMultipart_r2 app c r timestamp mode s =
     uploadFileMultipart_r2_loop app timestamp mode r
       \<lparr>ctx_r2 = c, expectClientIds = True, clientIds_r2 = [], nFiles = 0,
        resp_r2 = \<lparr>FileInfos = [], ClientIds = []\<rparr>, store_r2 = s\<rparr> r"

definition uploadFileStream_r2 ::
    "'s App \<Rightarrow> Context \<Rightarrow> Request \<Rightarrow> int \<Rightarrow> 's \<Rightarrow> upload_result \<times> 's" where
  "uploadFileStream_r2 app c r timestamp s =
     (if \<not> EnableFileAttachments app
        then (Failed (attachments_disabled ''uploadFileStream''), s)
      else
        (case ParseFormError r of
           Some e \<Rightarrow> (Failed (read_request ''uploadFileStream'' e StatusBadRequest), s)
         | None \<Rightarrow>
            (case Body r of
               Multipart mr \<Rightarrow> uploadFileMultipart_r2 app c mr timestamp bufferedMode s
             | MultipartError e \<Rightarrow>
                 (Failed (read_request ''uploadFileStream'' e StatusBadRequest), s)
             | NotMultipart rd \<Rightarrow> simple_post app c r rd timestamp s)))"

subsection \<open>The streaming loop, one part at a time\<close>




text \<open>Then for the loop of the second revision in stream mode:\<close>

definition stream_step ::
    "'s App \<Rightarrow> int \<Rightarrow> 's mp_state_r2 \<Rightarrow> part \<Rightarrow> (upload_result \<times> 's) + 's mp_state_r2" where
  "stream_step app timestamp st p =
     (if FormName p = [] then Inr st
      else if FileName p = [] then
        (case CopyN (Content p) maxValueBytes of
           (v, IOError e) \<Rightarrow>
             Inl (Failed (read_request ''uploadFileMultipart'' e StatusBadRequest), store_r2 st)
         | (v, _) \<Rightarrow>
             if FormName p = ''channel_id'' then
               Inr (st\<lparr>ctx_r2 := (if v \<noteq> [] then (ctx_r2 st)\<lparr>Context.ChannelId := v\<rparr>
                                    else ctx_r2 st)\<rparr>)
             else if FormName p = ''client_ids'' then
               (if \<not> expectClientIds st then Inl (Failed (InvalidParam ''client_ids''), store_r2 st)
                else Inr (st\<lparr>clientIds_r2 := clientIds_r2 st @ [v]\<rparr>))
             else Inl (Failed (InvalidParam ''formname''), store_r2 st))
      else if \<not> ValidChannelId app (Context.ChannelId (ctx_r2 st))
        then Inl (Failed (InvalidParam ''channel_id''), store_r2 st)
      else if \<not> SessionHasPermissionToChannel app (Context.UserId (ctx_r2 st))
                  (Context.ChannelId (ctx_r2 st))
        then Inl (Failed (PermissionError PERMISSION_UPLOAD_FILE), store_r2 st)
      else
        (let expect = (if nFiles st = 0 \<and> length (clientIds_r2 st) = 0 then False
                       else expectClientIds st)
         in if expect \<and> nFiles st \<ge> length (clientIds_r2 st)
            then Inl (Failed (InvalidParam ''client_ids''), store_r2 st)
            else
              (let clientId = (if expect then clientIds_r2 st ! nFiles st else []) in
               case UploadFile app (store_r2 st)
                      \<lparr>Timestamp = timestamp, TeamId = FILE_TEAM_ID,
                       ChannelId = Context.ChannelId (ctx_r2 st),
                       UserId = Context.UserId (ctx_r2 st),
                       ClientId = clientId, Name = FileName p, ContentLength = - 1,
                       Input = Content p\<rparr> of
                 (Inl appErr, s') \<Rightarrow> Inl (Failed appErr, s')
               | (Inr info, s') \<Rightarrow>
                   Inr (st\<lparr>expectClientIds := expect,
                        nFiles := Suc (nFiles st),
                        resp_r2 := (resp_r2 st)\<lparr>FileInfos := FileInfos (resp_r2 st) @ [info],
                                     ClientIds := (if expect
                                                   then ClientIds (resp_r2 st) @ [clientId]
                                                   else ClientIds (resp_r2 st))\<rparr>,
                        store_r2 := s'\<rparr>))))"

fun stream_run ::
    "'s App \<Rightarrow> int \<Rightarrow> 's mp_state_r2 \<Rightarrow> event list \<Rightarrow> (upload_result \<times> 's) + 's mp_state_r2" where
  "stream_run app timestamp st [] = Inr st"
| "stream_run app timestamp st (NextPartError e # ps) =
     Inl (Failed (read_request ''uploadFileMultipart'' e StatusBadRequest), store_r2 st)"
| "stream_run app timestamp st (Part p # ps) =
     (case stream_step app timestamp st p of
        Inl out \<Rightarrow> Inl out
      | Inr st' \<Rightarrow>
          (case failure (Content p) of
             None \<Rightarrow> stream_run app timestamp st' ps
           | Some e \<Rightarrow>
               Inl (Failed (read_request ''uploadFileMultipart'' (NextPart_text e) StatusBadRequest),
                    store_r2 st')))"

subsection \<open>Kinds of parts\<close>

text \<open>
  A file part has a form name and a file name; a \<^verbatim>\<open>client_ids\<close> field has that form name
  and no file name. The loop of the second revision starts from \<open>initial_r2\<close>.
\<close>

definition is_file :: "part \<Rightarrow> bool" where
  "is_file p \<longleftrightarrow> FormName p \<noteq> [] \<and> FileName p \<noteq> []"


definition initial_r2 :: "Context \<Rightarrow> 's \<Rightarrow> 's mp_state_r2" where
  "initial_r2 c s = \<lparr>ctx_r2 = c, expectClientIds = True, clientIds_r2 = [], nFiles = 0,
        resp_r2 = \<lparr>FileInfos = [], ClientIds = []\<rparr>, store_r2 = s\<rparr>"

text \<open>
  A part is plain when its reader does not fail. The parts of a request as a client
  builds it: a \<^verbatim>\<open>client_ids\<close> field with a value that is not empty and fits the cap, a
  file of the field \<^verbatim>\<open>files\<close>, a \<^verbatim>\<open>channel_id\<close> field that fits the cap. \<open>values_of\<close>
  and \<open>files_of\<close> are what \<^verbatim>\<open>ReadForm\<close> collects under a name.
\<close>

definition plain :: "part \<Rightarrow> bool" where
  "plain p \<longleftrightarrow> failure (Content p) = None"



definition wf_channel_id :: "part \<Rightarrow> bool" where
  "wf_channel_id p \<longleftrightarrow> FormName p = ''channel_id'' \<and> FileName p = [] \<and> plain p
      \<and> length (bytes (Content p)) \<le> maxValueBytes"



text \<open>A part cut to the first \<^verbatim>\<open>maxValueBytes\<close> bytes of its content.\<close>

definition capped :: "part \<Rightarrow> part" where
  "capped p = p\<lparr>Content := Reader (take maxValueBytes (bytes (Content p))) (failure (Content p))\<rparr>"

subsection \<open>A small instance of the collaborators\<close>

text \<open>
  To run the handlers on concrete requests: a store that is the list of the file
  infos inserted so far, and an upload pipeline that rejects a declared or an actual
  length above the limit with status 413 and otherwise appends the new file info.
  Channel and file ids are valid when they have 26 characters, a file name when it is
  not empty; every session may upload to every channel.
\<close>

definition too_large :: AppError where
  "too_large = NewAppError ''UploadFile'' ''api.file.upload_file.too_large.app_error'' []
     StatusRequestEntityTooLarge"

definition not_found :: AppError where
  "not_found = NewAppError ''GetFileInfo'' ''store.sql_file_info.get.app_error'' []
     StatusNotFound"

definition sample_info :: "FileInfo list \<Rightarrow> UploadFileContext \<Rightarrow> FileInfo" where
  "sample_info s u =
     \<lparr>Id = replicate 25 (CHR ''f'') @ [digit (length s)],
      CreatorId = UploadFileContext.UserId u, PostId = [],
      Path = UploadFileContext.ChannelId u @ ''/'' @ UploadFileContext.Name u,
      ThumbnailPath = [], PreviewPath = [], Name = UploadFileContext.Name u,
      MimeType = [], Size = int (length (bytes (Input u)))\<rparr>"

definition sample_UploadFile ::
    "int \<Rightarrow> FileInfo list \<Rightarrow> UploadFileContext \<Rightarrow> (AppError + FileInfo) \<times> FileInfo list" where
  "sample_UploadFile limit s u =
     (if UploadFileContext.ContentLength u > limit \<or> int (length (bytes (Input u))) > limit
      then (Inl too_large, s)
      else (Inr (sample_info s u), s @ [sample_info s u]))"

definition sample_App :: "FileInfo list App" where
  "sample_App =
     \<lparr>EnableFileAttachments = True, MaxFileSize = 100, EnablePublicLink = True,
      PublicLinkSalt = ''salt'', StorageDriver = ''local'',
      SessionHasPermissionToChannel = (\<lambda>u ch. True),
      SessionHasPermissionToChannelByPost = (\<lambda>u post. False),
      ValidChannelId = (\<lambda>ch. length ch = 26),
      ValidFilename = (\<lambda>f. length f \<noteq> 0),
      ValidFileId = (\<lambda>f. length f = 26),
      UploadFile = sample_UploadFile 100,
      UploadFiles = (\<lambda>s team ch u rds names ids now. (Inl too_large, s)),
      UploadMultipartFiles = (\<lambda>s team ch u fhs ids now. (Inl too_large, s)),
      GetFileInfo = (\<lambda>s i. case find (\<lambda>info. Id info = i) s of
                               None \<Rightarrow> Inl not_found | Some info \<Rightarrow> Inr info),
      FileReader = (\<lambda>s path. Inr ''ABC''),
      GeneratePublicLinkHash = (\<lambda>i salt. salt @ i)\<rparr>"

definition CID :: string where
  "CID = replicate 26 (CHR ''c'')"

definition sample_Context :: Context where
  "sample_Context = \<lparr>ChannelId = [], Filename = [], FileId = [], UserId = ''user''\<rparr>"

definition field :: "string \<Rightarrow> string \<Rightarrow> event" where
  "field name v = Part \<lparr>FormName = name, FileName = [], Content = Reader v None\<rparr>"

definition file_part :: "string \<Rightarrow> string \<Rightarrow> event" where
  "file_part filename data =
     Part \<lparr>FormName = ''files'', FileName = filename, Content = Reader data None\<rparr>"

definition multipart_request :: "int \<Rightarrow> event list \<Rightarrow> Request" where
  "multipart_request n mr = \<lparr>ContentLength = n, ParseFormError = None, Body = Multipart mr\<rparr>"

definition simple_request :: "int \<Rightarrow> string \<Rightarrow> Request" where
  "simple_request n data =
     \<lparr>ContentLength = n, ParseFormError = None, Body = NotMultipart (Reader data None)\<rparr>"

definition valid_Context :: Context where
  "valid_Context = \<lparr>ChannelId = CID, Filename = ''a.txt'', FileId = [], UserId = ''user''\<rparr>"

text \<open>A file info as the sample pipeline stores it, and requests for it and for an unknown id.\<close>

definition stored_info :: FileInfo where
  "stored_info = sample_info [] \<lparr>Timestamp = 0, TeamId = FILE_TEAM_ID, ChannelId = CID,
     UserId = ''user'', ClientId = [], Name = ''a.png'', ContentLength = 3,
     Input = Reader ''ABC'' None\<rparr>"

definition stored_id :: Context where
  "stored_id = sample_Context\<lparr>FileId := replicate 25 (CHR ''f'') @ [digit 0]\<rparr>"

definition unknown_id :: Context where
  "unknown_id = sample_Context\<lparr>FileId := replicate 26 (CHR ''f'')\<rparr>"

text \<open>The same file info with a given MIME type, a thumbnail and a preview.\<close>

definition typed_info :: "string \<Rightarrow> FileInfo" where
  "typed_info ct = stored_info\<lparr>MimeType := ct, ThumbnailPath := ''t.jpg'', PreviewPath := ''p.jpg''\<rparr>"

text \<open>A form value one byte longer than the cap, and the parts of the sample requests.\<close>

definition long_id :: string where
  "long_id = replicate 10241 (CHR ''x'')"

definition channel_id_part :: part where
  "channel_id_part = \<lparr>FormName = ''channel_id'', FileName = [], Content = Reader CID None\<rparr>"

definition client_ids_part :: "string \<Rightarrow> part" where
  "client_ids_part v = \<lparr>FormName = ''client_ids'', FileName = [], Content = Reader v None\<rparr>"

definition files_part :: "string \<Rightarrow> string \<Rightarrow> part" where
  "files_part filename data =
     \<lparr>FormName = ''files'', FileName = filename, Content = Reader data None\<rparr>"

text \<open>What a successful upload returned.\<close>

fun created :: "upload_result \<times> 's \<Rightarrow> FileUploadResponse option" where
  "created (Created r, s) = Some r"
| "created (other, s) = None"

section \<open>Properties of the retrieval handlers\<close>

subsection \<open>Headers of a file response\<close>

lemma HasPrefix_append: "HasPrefix s p \<longleftrightarrow> (\<exists>r. s = p @ r)"
  unfolding HasPrefix_def
  by (metis append_eq_conv_conj append_take_drop_id)

lemma media_not_unsafe:
  "u \<in> set UNSAFE_CONTENT_TYPES \<Longrightarrow> HasPrefix ct u \<Longrightarrow> m \<in> set MEDIA_CONTENT_TYPES
     \<Longrightarrow> \<not> HasPrefix ct m"
  by (auto simp: HasPrefix_append UNSAFE_CONTENT_TYPES_def MEDIA_CONTENT_TYPES_def)

lemma no_media_plain: "\<not> list_ex (HasPrefix ''text/plain'') MEDIA_CONTENT_TYPES"
  by (simp add: MEDIA_CONTENT_TYPES_def HasPrefix_def)

lemma no_media_octet: "\<not> list_ex (HasPrefix ''application/octet-stream'') MEDIA_CONTENT_TYPES"
  by (simp add: MEDIA_CONTENT_TYPES_def HasPrefix_def)

lemma no_media_empty: "\<not> list_ex (HasPrefix []) MEDIA_CONTENT_TYPES"
  by (simp add: MEDIA_CONTENT_TYPES_def HasPrefix_def)

text \<open>
  The media test runs on the rewritten content type, but the rewriting never turns a
  media type into another type nor another type into a media type.
\<close>

lemma media_after_rewriting:
  "list_ex (HasPrefix (if ct = [] then ''application/octet-stream''
                       else if list_ex (HasPrefix ct) UNSAFE_CONTENT_TYPES then ''text/plain''
                       else ct)) MEDIA_CONTENT_TYPES
     \<longleftrightarrow> list_ex (HasPrefix ct) MEDIA_CONTENT_TYPES"
  using no_media_plain no_media_octet no_media_empty media_not_unsafe
  by (auto simp: list_ex_iff)

lemma Content_Disposition:
  "Header (writeFileResponse filename ct sz rd download) ''Content-Disposition'' =
     Some ((if download \<or> \<not> list_ex (HasPrefix ct) MEDIA_CONTENT_TYPES
            then ''attachment'' else ''inline'')
           @ '';filename='' @ dquote @ PathEscape filename @ dquote
           @ ''; filename*=UTF-8'' @ squote @ squote @ PathEscape filename)"
  using media_after_rewriting [of ct]
  by (simp add: writeFileResponse_def Let_def)

lemma Content_Type:
  "Header (writeFileResponse filename ct sz rd download) ''Content-Type'' =
     Some (if ct = [] then ''application/octet-stream''
           else if (\<exists>u \<in> set UNSAFE_CONTENT_TYPES. HasPrefix ct u) then ''text/plain''
           else ct)"
  by (simp add: writeFileResponse_def Let_def list_ex_iff)

text \<open>
  C9, as stated: \<^verbatim>\<open>Content-Disposition\<close> begins with \<^verbatim>\<open>inline\<close> exactly when the
  content type is in the list of media types and no download was requested. It fails:
  \<^verbatim>\<open>audio/wave\<close> is not in the list, and is served inline, because it begins with
  \<^verbatim>\<open>audio/wav\<close>.
\<close>

theorem inline_outside_media_list:
  "''audio/wave'' \<notin> set MEDIA_CONTENT_TYPES \<and>
   HasPrefix (the (Header (writeFileResponse ''a.wav'' ''audio/wave'' 3 ''ABC'' False)
                     ''Content-Disposition'')) ''inline''"
  by (simp add: Content_Disposition MEDIA_CONTENT_TYPES_def HasPrefix_def)

text \<open>
  C9, amended: \<^verbatim>\<open>Content-Disposition\<close> begins with \<^verbatim>\<open>inline\<close> exactly when the
  content type begins with one of the media types and no download was requested, and
  with \<^verbatim>\<open>attachment\<close> in every other case.
\<close>

theorem writeFileResponse_Content_Disposition:
  "(HasPrefix (the (Header (writeFileResponse filename ct sz rd download)
                      ''Content-Disposition'')) ''inline''
      \<longleftrightarrow> (\<exists>m \<in> set MEDIA_CONTENT_TYPES. HasPrefix ct m) \<and> \<not> download)
   \<and> (HasPrefix (the (Header (writeFileResponse filename ct sz rd download)
                      ''Content-Disposition'')) ''attachment''
      \<longleftrightarrow> \<not> ((\<exists>m \<in> set MEDIA_CONTENT_TYPES. HasPrefix ct m) \<and> \<not> download))"
  by (simp add: Content_Disposition list_ex_iff HasPrefix_def)

theorem writeFileResponse_Content_Disposition_witness:
  "HasPrefix (the (Header (writeFileResponse ''a.png'' ''image/png'' 3 ''ABC'' False)
                     ''Content-Disposition'')) ''inline''
   \<and> HasPrefix (the (Header (writeFileResponse ''a.png'' ''image/png'' 3 ''ABC'' True)
                     ''Content-Disposition'')) ''attachment''"
  using writeFileResponse_Content_Disposition [of "''a.png''" "''image/png''" 3 "''ABC''" False]
        writeFileResponse_Content_Disposition [of "''a.png''" "''image/png''" 3 "''ABC''" True]
  by (simp add: MEDIA_CONTENT_TYPES_def HasPrefix_def)

subsection \<open>The hash of a public link\<close>

lemma ctc_loop_count: "length x = length y \<Longrightarrow> snd (ctc_loop v n x y) = n + length x"
  by (induction v n x y rule: ctc_loop.induct) auto

lemma ctc_loop_acc:
  "length x = length y \<Longrightarrow> fst (ctc_loop v n x y) = 0 \<longleftrightarrow> v = 0 \<and> x = y"
proof (induction v n x y rule: ctc_loop.induct)
  case (1 v n a x b y)
  have "a XOR b = 0 \<longleftrightarrow> a = b"
  proof
    assume "a XOR b = 0"
    then have "a XOR (a XOR b) = a" by simp
    then show "a = b" by (simp add: xor.assoc [symmetric])
  qed simp
  then have "v OR (a XOR b) = 0 \<longleftrightarrow> v = 0 \<and> a = b"
    by (simp add: or_eq_0_iff)
  with 1 show ?case by auto
qed auto

lemma ConstantTimeByteEq_zero: "ConstantTimeByteEq v 0 = (if v = 0 then 1 else 0)"
proof (cases "v = 0")
  case True
  then show ?thesis by (simp add: ConstantTimeByteEq_def drop_bit_eq_div)
next
  case False
  let ?u = "ucast v :: 32 word"
  have "uint ?u = uint v"
    by (rule uint_up_ucast) (simp add: is_up)
  then have uv: "unat ?u = unat v"
    by (metis unat_eq_nat_uint)
  have "unat v \<noteq> 0" using False by (simp add: unat_eq_zero)
  then have nz: "?u \<noteq> 0" using uv by (metis unat_0)
  have "unat v < 2 ^ 8" using unsigned_less [of v, where ?'a = nat] by simp
  then have "unat (?u - 1) < 2 ^ 31"
    using uv nz by (simp add: unat_minus_one)
  then have "drop_bit 31 (unat (?u - 1)) = 0"
    by (simp add: drop_bit_eq_div)
  then have "unat (drop_bit 31 (?u - 1)) = 0"
    by (simp only: unat_drop_bit_eq)
  then have "drop_bit 31 (?u - 1) = 0"
    by (simp add: unat_eq_zero)
  then show ?thesis using False by (simp add: ConstantTimeByteEq_def)
qed

lemma to_bytes_inj: "to_bytes a = to_bytes b \<longleftrightarrow> a = b"
proof -
  have "inj (\<lambda>ch. word_of_nat (of_char ch) :: 8 word)"
    by (rule injI) (simp add: word_of_nat_eq_iff take_bit_nat_eq_self)
  then show ?thesis
    unfolding to_bytes_def by (simp add: inj_map_eq_map)
qed

lemma length_to_bytes: "length (to_bytes h) = length h"
  by (simp add: to_bytes_def)

lemma ConstantTimeCompare_eq: "ConstantTimeCompare x y = (if x = y then 1 else 0)"
proof (cases "length x = length y")
  case True
  obtain v n where l: "ctc_loop 0 0 x y = (v, n)" by force
  have "v = 0 \<longleftrightarrow> x = y" using ctc_loop_acc [OF True, of 0 0] l by simp
  then show ?thesis
    using True l
    by (auto simp: ConstantTimeCompare_def ConstantTimeCompare_work_def ConstantTimeByteEq_zero)
next
  case False
  then show ?thesis
    by (auto simp: ConstantTimeCompare_def ConstantTimeCompare_work_def)
qed

lemma ConstantTimeCompare_work_count:
  "snd (ConstantTimeCompare_work x y) = (if length x = length y then length x else 0)"
  using ctc_loop_count [of x y 0 0]
  by (auto simp: ConstantTimeCompare_work_def split: prod.splits)

text \<open>
  C5. Once the file info has been found, \<^verbatim>\<open>getPublicFile\<close> compares the bytes of the
  \<^verbatim>\<open>h\<close> parameter with the bytes of the hash recomputed from the file id and the
  current salt, by \<^verbatim>\<open>subtle.ConstantTimeCompare\<close>. For two candidates of the same
  length the comparison visits the same number of bytes; its result is 1 when the
  candidate is the recomputed hash and 0 otherwise; and the handler renders the
  bad-request page for every other candidate, and goes on to the file for this one.
\<close>

theorem getPublicFile_hash_comparison:
  assumes "ValidFileId app (FileId c)" and "EnablePublicLink app"
    and "GetFileInfo app s (FileId c) = Inr info"
    and "secret = GeneratePublicLinkHash app (Id info) (PublicLinkSalt app)"
  shows "(length h1 = length h2 \<longrightarrow>
            snd (ConstantTimeCompare_work (to_bytes h1) (to_bytes secret))
              = snd (ConstantTimeCompare_work (to_bytes h2) (to_bytes secret)))
       \<and> ConstantTimeCompare (to_bytes h) (to_bytes secret) = (if h = secret then 1 else 0)
       \<and> (h \<noteq> secret \<longrightarrow> getPublicFile app c h s = ErrorPage public_invalid)
       \<and> (h = secret \<and> h \<noteq> [] \<longrightarrow> getPublicFile app c h s =
           (case FileReader app s (Path info) of
              Inl err \<Rightarrow> Panic (set_StatusCode StatusNotFound err)
            | Inr fileReader \<Rightarrow>
                Served (writeFileResponse (FileInfo.Name info) (MimeType info) (Size info)
                          fileReader False)))"
  using assms
  by (auto simp: ConstantTimeCompare_work_count ConstantTimeCompare_eq to_bytes_inj
                 length_to_bytes getPublicFile_def)

theorem getPublicFile_hash_comparison_witness:
  "snd (ConstantTimeCompare_work (to_bytes (''salt'' @ Id stored_info))
          (to_bytes (''salt'' @ Id stored_info)))
     = snd (ConstantTimeCompare_work (to_bytes (''pepa'' @ Id stored_info))
          (to_bytes (''salt'' @ Id stored_info)))
   \<and> getPublicFile sample_App stored_id (''pepa'' @ Id stored_info) [stored_info]
       = ErrorPage public_invalid
   \<and> getPublicFile sample_App stored_id (''salt'' @ Id stored_info) [stored_info]
       = Served (writeFileResponse ''a.png'' [] 3 ''ABC'' False)"
  using getPublicFile_hash_comparison
          [of sample_App stored_id "[stored_info]" stored_info "''salt'' @ Id stored_info"
              "''salt'' @ Id stored_info" "''pepa'' @ Id stored_info" "''pepa'' @ Id stored_info"]
        getPublicFile_hash_comparison
          [of sample_App stored_id "[stored_info]" stored_info "''salt'' @ Id stored_info"
              "''salt'' @ Id stored_info" "''pepa'' @ Id stored_info" "''salt'' @ Id stored_info"]
  by (simp add: sample_App_def stored_id_def stored_info_def sample_info_def sample_Context_def)

text \<open>
  C10, as stated: a request for a well-formed but unknown file id is answered with
  the error of the lookup. It fails when public links are disabled: the handler
  answers 501 before it looks the file up.
\<close>

theorem lookup_error_behind_gate:
  "ValidFileId (sample_App\<lparr>EnablePublicLink := False\<rparr>) (FileId unknown_id) \<and>
   GetFileInfo (sample_App\<lparr>EnablePublicLink := False\<rparr>) [] (FileId unknown_id)
     = Inl not_found \<and>
   getPublicFile (sample_App\<lparr>EnablePublicLink := False\<rparr>) unknown_id ''any'' []
     \<noteq> Failed_get not_found"
  by (simp add: sample_App_def unknown_id_def sample_Context_def getPublicFile_def
        not_found_def StatusNotFound_def StatusNotImplemented_def)

text \<open>
  C10, amended: when public links are enabled, a request for a well-formed file id
  whose lookup fails is answered with the error of the lookup, whatever \<^verbatim>\<open>h\<close> is:
  the hash is examined only after the lookup has succeeded.
\<close>

theorem getPublicFile_lookup_first:
  assumes "ValidFileId app (FileId c)" and "EnablePublicLink app"
    and "GetFileInfo app s (FileId c) = Inl err"
  shows "getPublicFile app c hash s = Failed_get err"
  using assms by (simp add: getPublicFile_def)

theorem getPublicFile_lookup_first_witness:
  "getPublicFile sample_App unknown_id ''any'' [] = Failed_get not_found"
  by (rule getPublicFile_lookup_first)
     (simp_all add: sample_App_def unknown_id_def sample_Context_def)

subsection \<open>The content type of a served file\<close>

text \<open>
  C8, as stated: the \<^verbatim>\<open>Content-Type\<close> header of every file response is
  \<^verbatim>\<open>application/octet-stream\<close> when the stored type is empty, \<^verbatim>\<open>text/plain\<close> when
  the stored type is one of the six unsafe types, and the stored type otherwise. It
  fails twice. The thumbnail (and the preview) of a file stored as \<^verbatim>\<open>image/png\<close> is
  served as \<^verbatim>\<open>image/jpeg\<close>: these two handlers pass a constant type. And a file stored
  as \<^verbatim>\<open>text/htmlx\<close>, which is none of the six types, is served as \<^verbatim>\<open>text/plain\<close>:
  the test is \<^verbatim>\<open>strings.HasPrefix\<close>.
\<close>

theorem thumbnail_not_stored_type:
  "(\<exists>resp. getFileThumbnail sample_App stored_id [] [typed_info ''image/png''] = Served resp
      \<and> Header resp ''Content-Type'' = Some ''image/jpeg'')
   \<and> (\<exists>resp. getFilePreview sample_App stored_id [] [typed_info ''image/png''] = Served resp
      \<and> Header resp ''Content-Type'' = Some ''image/jpeg'')
   \<and> MimeType (typed_info ''image/png'') = ''image/png''
   \<and> ''image/png'' \<notin> set UNSAFE_CONTENT_TYPES
   \<and> (\<exists>resp. getFile sample_App stored_id [] [typed_info ''text/htmlx''] = Served resp
      \<and> Header resp ''Content-Type'' = Some ''text/plain'')
   \<and> ''text/htmlx'' \<notin> set UNSAFE_CONTENT_TYPES"
  by (simp add: getFileThumbnail_def getFilePreview_def getFile_def sample_App_def stored_id_def
        sample_Context_def typed_info_def stored_info_def sample_info_def digit_def
        ParseBool_def Content_Type THUMBNAIL_IMAGE_TYPE_def PREVIEW_IMAGE_TYPE_def
        UNSAFE_CONTENT_TYPES_def HasPrefix_def)

text \<open>
  C8, amended: when \<^verbatim>\<open>getFile\<close> or \<^verbatim>\<open>getPublicFile\<close> serves a file, the
  \<^verbatim>\<open>Content-Type\<close> header is \<^verbatim>\<open>application/octet-stream\<close> when the MIME type of the
  stored file info is empty, \<^verbatim>\<open>text/plain\<close> when it begins with one of the unsafe
  types (so that \<^verbatim>\<open>text/html; charset=utf-8\<close> is rewritten too), and the stored type
  otherwise. When \<^verbatim>\<open>getFileThumbnail\<close> or \<^verbatim>\<open>getFilePreview\<close> serves a file, the header
  is \<^verbatim>\<open>image/jpeg\<close>, whatever the stored type is.
\<close>

theorem file_response_Content_Type:
  "(getFile app c download s = Served resp \<or> getPublicFile app c hash s = Served resp
      \<longrightarrow> (\<exists>info. GetFileInfo app s (FileId c) = Inr info \<and>
             Header resp ''Content-Type'' =
               Some (if MimeType info = [] then ''application/octet-stream''
                     else if (\<exists>u \<in> set UNSAFE_CONTENT_TYPES. HasPrefix (MimeType info) u)
                       then ''text/plain''
                     else MimeType info)))
   \<and> (getFileThumbnail app c download s = Served resp
        \<or> getFilePreview app c download s = Served resp
      \<longrightarrow> Header resp ''Content-Type'' = Some ''image/jpeg'')"
proof (intro conjI impI)
  assume served: "getFile app c download s = Served resp
                    \<or> getPublicFile app c hash s = Served resp"
  then obtain info where info: "GetFileInfo app s (FileId c) = Inr info"
    by (cases "GetFileInfo app s (FileId c)")
       (auto simp: getFile_def getPublicFile_def Let_def split: if_splits)
  from served obtain rd d
    where "resp = writeFileResponse (FileInfo.Name info) (MimeType info) (Size info) rd d"
    using info
    by (auto simp: getFile_def getPublicFile_def Let_def split: if_splits sum.splits)
  then show "\<exists>info. GetFileInfo app s (FileId c) = Inr info \<and>
               Header resp ''Content-Type'' =
                 Some (if MimeType info = [] then ''application/octet-stream''
                       else if (\<exists>u \<in> set UNSAFE_CONTENT_TYPES. HasPrefix (MimeType info) u)
                         then ''text/plain''
                       else MimeType info)"
    using info by (simp add: Content_Type)
next
  assume "getFileThumbnail app c download s = Served resp
            \<or> getFilePreview app c download s = Served resp"
  then obtain name rd d where "resp = writeFileResponse name ''image/jpeg'' 0 rd d"
    by (auto simp: getFileThumbnail_def getFilePreview_def Let_def THUMBNAIL_IMAGE_TYPE_def
          PREVIEW_IMAGE_TYPE_def split: if_splits sum.splits)
  then show "Header resp ''Content-Type'' = Some ''image/jpeg''"
    by (simp add: Content_Type UNSAFE_CONTENT_TYPES_def HasPrefix_def)
qed

theorem file_response_Content_Type_witness:
  "getFile sample_App stored_id [] [typed_info []]
     = Served (writeFileResponse ''a.png'' [] 3 ''ABC'' False)
   \<and> Header (writeFileResponse ''a.png'' [] 3 ''ABC'' False) ''Content-Type''
       = Some ''application/octet-stream''
   \<and> getFile sample_App stored_id ''true'' [typed_info ''text/html; charset=utf-8'']
     = Served (writeFileResponse ''a.png'' ''text/html; charset=utf-8'' 3 ''ABC'' True)
   \<and> Header (writeFileResponse ''a.png'' ''text/html; charset=utf-8'' 3 ''ABC'' True)
       ''Content-Type'' = Some ''text/plain''
   \<and> getPublicFile sample_App stored_id (''salt'' @ FileId stored_id) [typed_info ''image/png'']
     = Served (writeFileResponse ''a.png'' ''image/png'' 3 ''ABC'' False)
   \<and> Header (writeFileResponse ''a.png'' ''image/png'' 3 ''ABC'' False) ''Content-Type''
       = Some ''image/png''
   \<and> getFilePreview sample_App stored_id [] [typed_info ''image/png'']
     = Served (writeFileResponse ''a.png'' ''image/jpeg'' 0 ''ABC'' False)
   \<and> Header (writeFileResponse ''a.png'' ''image/jpeg'' 0 ''ABC'' False) ''Content-Type''
       = Some ''image/jpeg''"
  using file_response_Content_Type
          [where app = sample_App and c = stored_id and download = "[]"
             and s = "[typed_info []]"
             and resp = "writeFileResponse ''a.png'' [] 3 ''ABC'' False"]
        file_response_Content_Type
          [where app = sample_App and c = stored_id and download = "''true''"
             and s = "[typed_info ''text/html; charset=utf-8'']"
             and resp = "writeFileResponse ''a.png'' ''text/html; charset=utf-8'' 3 ''ABC'' True"]
        file_response_Content_Type
          [where app = sample_App and c = stored_id and hash = "''salt'' @ FileId stored_id"
             and s = "[typed_info ''image/png'']"
             and resp = "writeFileResponse ''a.png'' ''image/png'' 3 ''ABC'' False"]
        file_response_Content_Type
          [where app = sample_App and c = stored_id and download = "[]"
             and s = "[typed_info ''image/png'']"
             and resp = "writeFileResponse ''a.png'' ''image/jpeg'' 0 ''ABC'' False"]
  by (simp add: getFile_def getPublicFile_def getFilePreview_def sample_App_def stored_id_def
        sample_Context_def typed_info_def stored_info_def sample_info_def digit_def
        ParseBool_def PREVIEW_IMAGE_TYPE_def UNSAFE_CONTENT_TYPES_def HasPrefix_def
        ConstantTimeCompare_eq)

section \<open>Properties of the upload handlers\<close>

subsection \<open>The checks of the facade\<close>

text \<open>
  C6, as stated: the facade answers 501 at once when attachments are disabled or the
  storage driver is empty. It fails for the storage driver, which the facade never
  looks at: with an empty driver a request without a channel id is answered 400.
\<close>

theorem empty_driver_not_checked:
  "StorageDriver (sample_App\<lparr>StorageDriver := []\<rparr>) = [] \<and>
   uploadFileStream (sample_App\<lparr>StorageDriver := []\<rparr>) sample_Context
       (simple_request 3 ''ABC'') 0 []
     = (Failed (InvalidParam ''channel_id''), []) \<and>
   uploadFileStream_r2 (sample_App\<lparr>StorageDriver := []\<rparr>) sample_Context
       (simple_request 3 ''ABC'') 0 []
     = (Failed (InvalidParam ''channel_id''), []) \<and>
   StatusCode (InvalidParam ''channel_id'') \<noteq> StatusNotImplemented"
  by (simp add: sample_App_def sample_Context_def simple_request_def uploadFileStream_def
        uploadFileStream_r2_def simple_post_def StatusNotImplemented_def)

text \<open>
  C6, amended: when attachments are disabled, both revisions of the facade answer 501
  at once, whatever the request and its body are, and leave the stores as they were.
\<close>

theorem uploadFileStream_disabled:
  assumes "\<not> EnableFileAttachments app"
  shows "uploadFileStream app c r timestamp s = (Failed (attachments_disabled ''uploadFile''), s)
       \<and> uploadFileStream_r2 app c r timestamp s
           = (Failed (attachments_disabled ''uploadFileStream''), s)
       \<and> StatusCode (attachments_disabled wh) = 501"
  using assms
  by (simp add: uploadFileStream_def uploadFileStream_r2_def attachments_disabled_def
        StatusNotImplemented_def)

theorem uploadFileStream_disabled_witness:
  "uploadFileStream (sample_App\<lparr>EnableFileAttachments := False\<rparr>) sample_Context
       (simple_request 3 ''ABC'') 0 []
     = (Failed (attachments_disabled ''uploadFile''), [])
   \<and> uploadFileStream_r2 (sample_App\<lparr>EnableFileAttachments := False\<rparr>) sample_Context
       (simple_request 3 ''ABC'') 0 []
     = (Failed (attachments_disabled ''uploadFileStream''), [])
   \<and> StatusCode (attachments_disabled ''uploadFile'') = 501"
  using uploadFileStream_disabled
          [of "sample_App\<lparr>EnableFileAttachments := False\<rparr>" sample_Context
              "simple_request 3 ''ABC''" 0 "[]" "''uploadFile''"]
  by (simp add: sample_App_def)

text \<open>
  The older handler compares the content length with the limit before it parses the
  form.
\<close>

lemma uploadFile_too_large:
  assumes "EnableFileAttachments app" and "Request.ContentLength r > MaxFileSize app"
  shows "uploadFile app c r now s =
           (Failed (NewAppError ''uploadFile'' ''api.file.upload_file.too_large.app_error'' []
              StatusRequestEntityTooLarge), s)"
  using assms by (simp add: uploadFile_def)

text \<open>
  C4, as stated: a request whose content length exceeds the limit is answered 413
  before its body is read. It fails for multipart requests: neither revision of the
  facade compares the content length with the limit, and a multipart request of
  declared length 1000, against a limit of 100, is answered 201 when its file is small.
\<close>

theorem long_multipart_accepted:
  "Request.ContentLength
      (multipart_request 1000 [field ''channel_id'' CID, file_part ''a.txt'' ''hello''])
      > MaxFileSize sample_App \<and>
   map_option (map FileInfo.Name \<circ> FileInfos) (created (uploadFileStream sample_App sample_Context
        (multipart_request 1000 [field ''channel_id'' CID, file_part ''a.txt'' ''hello'']) 0 []))
     = Some [''a.txt''] \<and>
   map_option (map FileInfo.Name \<circ> FileInfos) (created (uploadFileStream_r2 sample_App sample_Context
        (multipart_request 1000 [field ''channel_id'' CID, file_part ''a.txt'' ''hello'']) 0 []))
     = Some [''a.txt'']"
  by (simp add: sample_App_def sample_Context_def multipart_request_def field_def file_part_def
        CID_def uploadFileStream_def uploadFileStream_r2_def uploadFileMultipart_def
        uploadFileMultipart_r2_def CopyN_def maxValueBytes_def rest_def sample_UploadFile_def
        sample_info_def bufferedMode_def streamMode_def FILE_TEAM_ID_def)

text \<open>
  C4, amended: the facade itself never compares the content length of the request with
  the limit. For a request that is not multipart and passes the checks of the facade
  (attachments enabled, the form parses, channel id and file name valid, permission to
  upload), both revisions hand the content length, unchanged, and the unread body to
  \<^verbatim>\<open>UploadFile\<close>, and answer what it answers: its error, hence its 413 for a length
  above the limit, or the file info it stored. For every other request (multipart, or
  with a bad boundary) the answer does not depend on the content length of the request.
\<close>

theorem uploadFileStream_Content_Length:
  "(EnableFileAttachments app \<and> ParseFormError r = None \<and> Body r = NotMultipart rd
      \<and> ValidChannelId app (Context.ChannelId c) \<and> ValidFilename app (Context.Filename c)
      \<and> SessionHasPermissionToChannel app (Context.UserId c) (Context.ChannelId c)
    \<longrightarrow> uploadFileStream app c r timestamp s =
          (case UploadFile app s
                  \<lparr>Timestamp = timestamp, TeamId = FILE_TEAM_ID,
                   ChannelId = Context.ChannelId c, UserId = Context.UserId c,
                   ClientId = [], Name = Context.Filename c,
                   ContentLength = Request.ContentLength r, Input = rd\<rparr> of
             (Inl appErr, s') \<Rightarrow> (Failed appErr, s')
           | (Inr info, s') \<Rightarrow> (Created \<lparr>FileInfos = [info], ClientIds = []\<rparr>, s'))
        \<and> uploadFileStream_r2 app c r timestamp s = uploadFileStream app c r timestamp s)
   \<and> ((\<forall>rd. Body r \<noteq> NotMultipart rd)
    \<longrightarrow> uploadFileStream app c (r\<lparr>ContentLength := n\<rparr>) timestamp s
          = uploadFileStream app c r timestamp s
        \<and> uploadFileStream_r2 app c (r\<lparr>ContentLength := n\<rparr>) timestamp s
          = uploadFileStream_r2 app c r timestamp s)"
proof (intro conjI impI)
  assume "EnableFileAttachments app \<and> ParseFormError r = None \<and> Body r = NotMultipart rd
      \<and> ValidChannelId app (Context.ChannelId c) \<and> ValidFilename app (Context.Filename c)
      \<and> SessionHasPermissionToChannel app (Context.UserId c) (Context.ChannelId c)"
  then show "uploadFileStream app c r timestamp s =
          (case UploadFile app s
                  \<lparr>Timestamp = timestamp, TeamId = FILE_TEAM_ID,
                   ChannelId = Context.ChannelId c, UserId = Context.UserId c,
                   ClientId = [], Name = Context.Filename c,
                   ContentLength = Request.ContentLength r, Input = rd\<rparr> of
             (Inl appErr, s') \<Rightarrow> (Failed appErr, s')
           | (Inr info, s') \<Rightarrow> (Created \<lparr>FileInfos = [info], ClientIds = []\<rparr>, s'))"
    and "uploadFileStream_r2 app c r timestamp s = uploadFileStream app c r timestamp s"
    by (simp_all add: uploadFileStream_def uploadFileStream_r2_def simple_post_def)
next
  assume "\<forall>rd. Body r \<noteq> NotMultipart rd"
  then show "uploadFileStream app c (r\<lparr>ContentLength := n\<rparr>) timestamp s
               = uploadFileStream app c r timestamp s"
    and "uploadFileStream_r2 app c (r\<lparr>ContentLength := n\<rparr>) timestamp s
               = uploadFileStream_r2 app c r timestamp s"
    by (cases "Body r";
        simp add: uploadFileStream_def uploadFileStream_r2_def split: option.splits)+
qed

theorem uploadFileStream_Content_Length_witness:
  "uploadFileStream sample_App valid_Context (simple_request 101 ''ABC'') 0 []
     = (Failed too_large, [])
   \<and> uploadFileStream_r2 sample_App valid_Context (simple_request 101 ''ABC'') 0 []
     = (Failed too_large, [])
   \<and> StatusCode too_large = StatusRequestEntityTooLarge
   \<and> map_option (map FileInfo.Name \<circ> FileInfos)
       (created (uploadFileStream sample_App valid_Context (simple_request 100 ''ABC'') 0 []))
     = Some [''a.txt'']
   \<and> uploadFileStream sample_App sample_Context
       (multipart_request 1000 [field ''channel_id'' CID, file_part ''a.txt'' ''hello'']) 0 []
     = uploadFileStream sample_App sample_Context
       (multipart_request 5 [field ''channel_id'' CID, file_part ''a.txt'' ''hello'']) 0 []
   \<and> uploadFileStream_r2 sample_App sample_Context
       (multipart_request 1000 [field ''channel_id'' CID, file_part ''a.txt'' ''hello'']) 0 []
     = uploadFileStream_r2 sample_App sample_Context
       (multipart_request 5 [field ''channel_id'' CID, file_part ''a.txt'' ''hello'']) 0 []"
  using uploadFileStream_Content_Length
          [where app = sample_App and c = valid_Context and r = "simple_request 101 ''ABC''"
             and rd = "Reader ''ABC'' None" and timestamp = 0 and s = "[]"]
        uploadFileStream_Content_Length
          [where app = sample_App and c = valid_Context and r = "simple_request 100 ''ABC''"
             and rd = "Reader ''ABC'' None" and timestamp = 0 and s = "[]"]
        uploadFileStream_Content_Length
          [where app = sample_App and c = sample_Context
             and r = "multipart_request 5 [field ''channel_id'' CID, file_part ''a.txt'' ''hello'']"
             and n = 1000 and timestamp = 0 and s = "[]"]
  by (simp add: sample_App_def valid_Context_def simple_request_def multipart_request_def
        CID_def sample_UploadFile_def sample_info_def too_large_def)

section \<open>Properties of the multipart ingestors\<close>

declare uploadFileMultipart_r2_loop.simps [simp del]

declare readForm.simps [simp del]

subsection \<open>The streaming loop of the second revision as a run of steps\<close>

lemma loop_step:
  "uploadFileMultipart_r2_loop app t streamMode whole st (Part p # ps) =
     (case stream_step app t st p of
        Inl out \<Rightarrow> out
      | Inr st' \<Rightarrow> uploadFileMultipart_r2_loop app t streamMode whole st' (rest p ps))"
proof (cases "FormName p = []")
  case True
  then show ?thesis by (simp add: stream_step_def uploadFileMultipart_r2_loop.simps)
next
  case name: False
  show ?thesis
  proof (cases "FileName p = []")
    case True
    obtain v err where "CopyN (Content p) maxValueBytes = (v, err)" by force
    then show ?thesis
      using name True
      by (cases err)
         (simp_all add: stream_step_def streamMode_def bufferedMode_def
            uploadFileMultipart_r2_loop.simps)
  next
    case False
    note named = False
    note defs = stream_step_def streamMode_def bufferedMode_def uploadFileMultipart_r2_loop.simps
    show ?thesis
    proof (cases "ValidChannelId app (Context.ChannelId (ctx_r2 st))
                  \<and> SessionHasPermissionToChannel app (Context.UserId (ctx_r2 st))
                        (Context.ChannelId (ctx_r2 st))")
      case False
      then show ?thesis using name named by (auto simp: defs)
    next
      case ok: True
      show ?thesis
      proof (cases "nFiles st = 0 \<and> clientIds_r2 st = []")
        case True
        obtain res s' where
          "UploadFile app (store_r2 st)
             \<lparr>Timestamp = t, TeamId = FILE_TEAM_ID,
              ChannelId = Context.ChannelId (ctx_r2 st), UserId = Context.UserId (ctx_r2 st),
              ClientId = [], Name = FileName p, ContentLength = - 1,
              Input = Content p\<rparr> = (res, s')"
          by force
        then show ?thesis
          using name named ok True by (cases res) (simp_all add: defs)
      next
        case first: False
        show ?thesis
        proof (cases "expectClientIds st")
          case False
          obtain res s' where
            "UploadFile app (store_r2 st)
               \<lparr>Timestamp = t, TeamId = FILE_TEAM_ID,
                ChannelId = Context.ChannelId (ctx_r2 st), UserId = Context.UserId (ctx_r2 st),
                ClientId = [], Name = FileName p, ContentLength = - 1,
                Input = Content p\<rparr> = (res, s')"
            by force
          then show ?thesis
            using name named ok first False by (cases res) (auto simp: defs)
        next
          case True
          show ?thesis
          proof (cases "length (clientIds_r2 st) \<le> nFiles st")
            case True
            then show ?thesis
              using name named ok first \<open>expectClientIds st\<close> by (auto simp: defs)
          next
            case False
            obtain res s' where
              "UploadFile app (store_r2 st)
                 \<lparr>Timestamp = t, TeamId = FILE_TEAM_ID,
                  ChannelId = Context.ChannelId (ctx_r2 st),
                  UserId = Context.UserId (ctx_r2 st),
                  ClientId = clientIds_r2 st ! nFiles st, Name = FileName p,
                  ContentLength = - 1, Input = Content p\<rparr> = (res, s')"
              by force
            then show ?thesis
              using name named ok first \<open>expectClientIds st\<close> False
              by (cases res) (auto simp: defs)
          qed
        qed
      qed
    qed
  qed
qed

lemma loop_run_append:
  "uploadFileMultipart_r2_loop app t streamMode whole st (xs @ ys) =
     (case stream_run app t st xs of
        Inl out \<Rightarrow> out
      | Inr st' \<Rightarrow> uploadFileMultipart_r2_loop app t streamMode whole st' ys)"
proof (induction xs arbitrary: st)
  case Nil
  show ?case by simp
next
  case (Cons x xs)
  show ?case
  proof (cases x)
    case (Part p)
    show ?thesis
      unfolding Part append_Cons loop_step
      by (simp add: Cons.IH rest_def uploadFileMultipart_r2_loop.simps
            split: sum.splits option.splits)
  next
    case (NextPartError e)
    then show ?thesis by (simp add: uploadFileMultipart_r2_loop.simps)
  qed
qed

lemma stream_whole:
  "uploadFileMultipart_r2_loop app t streamMode whole st xs =
   uploadFileMultipart_r2_loop app t streamMode whole' st xs"
  using loop_run_append [of app t whole st xs "[]"] loop_run_append [of app t whole' st xs "[]"]
  by (simp add: uploadFileMultipart_r2_loop.simps split: sum.splits)




lemma step_no_file:
  assumes "stream_step app t st p = Inr st'" and "\<not> is_file p"
  shows "nFiles st' = nFiles st \<and> expectClientIds st' = expectClientIds st"
  using assms
  by (auto simp: stream_step_def is_file_def split: if_splits prod.splits io_error.splits)











subsection \<open>Form values longer than the cap\<close>

lemma CopyN_capped: "CopyN (Content (capped p)) maxValueBytes = CopyN (Content p) maxValueBytes"
  by (simp add: capped_def CopyN_def min_def)

lemma rest_capped: "rest (capped p) ps = rest p ps"
  by (simp add: capped_def rest_def)

lemma loop_capped:
  "FileName p = [] \<Longrightarrow>
     uploadFileMultipart_loop app t st (Part (capped p) # ps) = uploadFileMultipart_loop app t st (Part p # ps)"
proof -
  have "FormName (capped p) = FormName p" "FileName (capped p) = FileName p"
    by (simp_all add: capped_def)
  then show ?thesis if "FileName p = []"
    using that by (simp add: CopyN_capped rest_capped split: prod.splits io_error.splits)
qed

lemma loop_prefix:
  assumes "\<And>st. uploadFileMultipart_loop app t st xs = uploadFileMultipart_loop app t st ys"
  shows "uploadFileMultipart_loop app t st (pre @ xs) = uploadFileMultipart_loop app t st (pre @ ys)"
proof (induction pre arbitrary: st)
  case Nil
  then show ?case using assms by simp
next
  case (Cons e pre)
  show ?case
  proof (cases e)
    case (Part q)
    have r: "\<And>st. uploadFileMultipart_loop app t st (rest q (pre @ xs)) = uploadFileMultipart_loop app t st (rest q (pre @ ys))"
      using Cons.IH by (simp add: rest_def split: option.splits)
    show ?thesis unfolding Part append_Cons uploadFileMultipart_loop.simps r ..
  next
    case (NextPartError x2)
    then show ?thesis by simp
  qed
qed

lemma step_capped:
  "FileName p = [] \<Longrightarrow> stream_step app t st (capped p) = stream_step app t st p"
proof -
  have "FormName (capped p) = FormName p" "FileName (capped p) = FileName p"
    by (simp_all add: capped_def)
  then show ?thesis if "FileName p = []"
    using that
    by (simp add: stream_step_def CopyN_capped split: prod.splits io_error.splits)
qed

lemma r2_loop_capped:
  assumes "FileName p = []"
  shows "uploadFileMultipart_r2_loop app t streamMode w st (pre @ Part p # post)
       = uploadFileMultipart_r2_loop app t streamMode w' st (pre @ Part (capped p) # post)"
proof (cases "stream_run app t st pre")
  case (Inl out)
  then show ?thesis by (simp add: loop_run_append)
next
  case (Inr st1)
  show ?thesis
  proof (cases "stream_step app t st1 p")
    case (Inl out)
    then show ?thesis
      using Inr by (simp add: loop_run_append loop_step step_capped [OF assms])
  next
    case (Inr st2)
    then show ?thesis
      using \<open>stream_run app t st pre = Inr st1\<close>
        stream_whole [of app t w st2 "rest p post" w']
      by (simp add: loop_run_append loop_step step_capped [OF assms] rest_capped)
  qed
qed

text \<open>
  C7, as stated: a form value above 10240 bytes fails the request with status 400. It
  fails: \<^verbatim>\<open>io.CopyN\<close> returns no error when the part has more bytes than it was asked
  to copy. A \<^verbatim>\<open>client_ids\<close> value of 10241 bytes is accepted by both revisions, and its
  first 10240 bytes are returned as the client id. Where the second revision falls back
  to \<^verbatim>\<open>ReadForm\<close>, the channel id coming last, the value is not even cut.
\<close>

theorem long_form_value_accepted:
  "length long_id > maxValueBytes
   \<and> map_option ClientIds (created (uploadFileStream sample_App sample_Context
        (multipart_request 0 [Part channel_id_part, Part (client_ids_part long_id),
                              Part (files_part ''a.png'' ''ABC'')]) 0 []))
     = Some [replicate 10240 (CHR ''x'')]
   \<and> map_option ClientIds (created (uploadFileStream_r2 sample_App sample_Context
        (multipart_request 0 [Part channel_id_part, Part (client_ids_part long_id),
                              Part (files_part ''a.png'' ''ABC'')]) 0 []))
     = Some [replicate 10240 (CHR ''x'')]
   \<and> map_option ClientIds (created (uploadFileStream_r2 sample_App sample_Context
        (multipart_request 0 [Part (client_ids_part long_id),
                              Part (files_part ''a.png'' ''ABC''), Part channel_id_part]) 0 []))
     = Some [replicate 10241 (CHR ''x'')]"
  by (simp add: sample_App_def sample_Context_def multipart_request_def channel_id_part_def
        files_part_def client_ids_part_def CID_def long_id_def
        uploadFileStream_def uploadFileStream_r2_def uploadFileMultipart_def
        uploadFileMultipart_r2_def uploadFileMultipart_r2_loop.simps
        uploadFileMultipartBuffered_def ReadForm_def readForm.simps CopyN_def
        maxValueBytes_def rest_def sample_UploadFile_def sample_info_def bufferedMode_def
        streamMode_def FILE_TEAM_ID_def)

text \<open>
  C7, amended: the streaming ingestor reads at most 10240 bytes of a form value and
  drops what is left of it without an error. A request with a part that has no file
  name is answered, by the first revision and by the second one in stream mode, as the
  same request with that part cut to its first 10240 bytes; the length of the value
  alone never fails the request.
\<close>

theorem form_value_cut_at_cap:
  assumes "FileName p = []"
  shows "uploadFileStream app c (r\<lparr>Body := Multipart (pre @ Part p # post)\<rparr>) t s
       = uploadFileStream app c (r\<lparr>Body := Multipart (pre @ Part (capped p) # post)\<rparr>) t s
     \<and> uploadFileMultipart_r2 app c (pre @ Part p # post) t streamMode s
       = uploadFileMultipart_r2 app c (pre @ Part (capped p) # post) t streamMode s"
proof
  have "\<And>st. uploadFileMultipart_loop app t st (Part p # post)
              = uploadFileMultipart_loop app t st (Part (capped p) # post)"
    by (rule loop_capped [symmetric, OF assms])
  then have "\<And>st. uploadFileMultipart_loop app t st (pre @ Part p # post)
              = uploadFileMultipart_loop app t st (pre @ Part (capped p) # post)"
    by (rule loop_prefix)
  then show "uploadFileStream app c (r\<lparr>Body := Multipart (pre @ Part p # post)\<rparr>) t s
       = uploadFileStream app c (r\<lparr>Body := Multipart (pre @ Part (capped p) # post)\<rparr>) t s"
    by (simp add: uploadFileStream_def uploadFileMultipart_def split: option.splits)
  show "uploadFileMultipart_r2 app c (pre @ Part p # post) t streamMode s
       = uploadFileMultipart_r2 app c (pre @ Part (capped p) # post) t streamMode s"
    unfolding uploadFileMultipart_r2_def by (rule r2_loop_capped [OF assms])
qed

theorem form_value_cut_at_cap_witness:
  "uploadFileStream sample_App sample_Context
      (multipart_request 0 [Part channel_id_part, Part (client_ids_part long_id),
                            Part (files_part ''a.png'' ''ABC'')]) 0 []
   = uploadFileStream sample_App sample_Context
      (multipart_request 0 [Part channel_id_part,
                            Part (client_ids_part (replicate 10240 (CHR ''x''))),
                            Part (files_part ''a.png'' ''ABC'')]) 0 []
   \<and> uploadFileMultipart_r2 sample_App sample_Context
        [Part channel_id_part, Part (client_ids_part long_id),
         Part (files_part ''a.png'' ''ABC'')] 0 streamMode []
   = uploadFileMultipart_r2 sample_App sample_Context
        [Part channel_id_part, Part (client_ids_part (replicate 10240 (CHR ''x''))),
         Part (files_part ''a.png'' ''ABC'')] 0 streamMode []"
  using form_value_cut_at_cap
          [where p = "client_ids_part long_id" and app = sample_App and c = sample_Context
             and r = "multipart_request 0 []" and pre = "[Part channel_id_part]"
             and post = "[Part (files_part ''a.png'' ''ABC'')]" and t = 0 and s = "[]"]
  by (simp add: multipart_request_def client_ids_part_def capped_def long_id_def
        maxValueBytes_def)

subsection \<open>The loop of src/api4/file.go as a run of steps\<close>

declare uploadFileMultipart_loop.simps [simp del]















subsection \<open>Requests as a client builds them\<close>

lemma CopyN_plain:
  "plain p \<Longrightarrow> length (bytes (Content p)) \<le> maxValueBytes \<Longrightarrow>
     \<exists>err. CopyN (Content p) maxValueBytes = (bytes (Content p), err) \<and> (\<forall>e. err \<noteq> IOError e)"
  by (auto simp: CopyN_def plain_def)







lemma channel_id_restart:
  assumes "wf_channel_id ch"
  shows "uploadFileMultipart_r2_loop app t bufferedMode whole st (Part ch # ps)
           = uploadFileMultipart_r2_loop app t streamMode whole
               (initial_r2 (if bytes (Content ch) \<noteq> []
                            then (ctx_r2 st)\<lparr>Context.ChannelId := bytes (Content ch)\<rparr>
                            else ctx_r2 st) (store_r2 st)) whole"
proof -
  from assms have pl: "plain ch" "length (bytes (Content ch)) \<le> maxValueBytes"
    and n: "FormName ch = ''channel_id''" "FileName ch = []"
    by (simp_all add: wf_channel_id_def)
  from CopyN_plain [OF pl] obtain err
    where "CopyN (Content ch) maxValueBytes = (bytes (Content ch), err)" "\<forall>e. err \<noteq> IOError e"
    by blast
  then show ?thesis
    using n
    by (cases err) (simp_all add: uploadFileMultipart_r2_loop.simps initial_r2_def)
qed

text \<open>
  Stream mode is how the facade runs the ingestor on a body that begins with the
  \<^verbatim>\<open>channel_id\<close> field.
\<close>

lemma uploadFileStream_r2_channel_id_first:
  assumes "EnableFileAttachments app" and "ParseFormError r = None"
    and "wf_channel_id ch" and "bytes (Content ch) \<noteq> []"
  shows "uploadFileStream_r2 app c (r\<lparr>Body := Multipart (Part ch # ps)\<rparr>) t s
       = uploadFileMultipart_r2 app (c\<lparr>Context.ChannelId := bytes (Content ch)\<rparr>)
           (Part ch # ps) t streamMode s"
  using assms
  by (simp add: uploadFileStream_r2_def uploadFileMultipart_r2_def
        channel_id_restart [OF assms(3)] initial_r2_def)

subsection \<open>Client ids that come after the first file\<close>





subsection \<open>The channel id after the files\<close>




subsection \<open>Client ids and file infos of a response\<close>

text \<open>
  C1: in every response, \<^verbatim>\<open>ClientIds\<close> is empty or as long as \<^verbatim>\<open>FileInfos\<close>, and
  its \<open>i\<close>-th entry is the client id supplied for the \<open>i\<close>-th file. The code breaks
  it. In the buffered path of the second revision a client id that is the empty string
  is counted before the loop but not put into the response: two files with the client
  ids \<^verbatim>\<open>""\<close> and \<^verbatim>\<open>c2\<close>, the channel id last, are answered 201 with two file infos and
  the single client id \<^verbatim>\<open>c2\<close>, which stands at index 0 and belongs to the file at
  index 1. In the first revision a \<^verbatim>\<open>client_ids\<close> field between two files has the same
  effect: two file infos, and the one client id \<^verbatim>\<open>c1\<close> that was given to the second
  file.
\<close>

theorem client_ids_shorter_than_files:
  "map_option (\<lambda>r. (map FileInfo.Name (FileInfos r), ClientIds r))
       (created (uploadFileStream_r2 sample_App sample_Context
          (multipart_request 0 [Part (files_part ''a.png'' ''ABC''), Part (client_ids_part []),
                                Part (files_part ''b.png'' ''DEF''),
                                Part (client_ids_part ''c2''), Part channel_id_part]) 0 []))
     = Some ([''a.png'', ''b.png''], [''c2''])
   \<and> map_option (\<lambda>r. (map FileInfo.Name (FileInfos r), ClientIds r))
       (created (uploadFileStream sample_App sample_Context
          (multipart_request 0 [Part channel_id_part, Part (files_part ''a.png'' ''ABC''),
                                Part (client_ids_part ''c1''),
                                Part (files_part ''b.png'' ''DEF'')]) 0 []))
     = Some ([''a.png'', ''b.png''], [''c1''])"
  by (simp add: sample_App_def sample_Context_def multipart_request_def channel_id_part_def
        files_part_def client_ids_part_def CID_def
        uploadFileStream_def uploadFileStream_r2_def uploadFileMultipart_def
        uploadFileMultipart_loop.simps uploadFileMultipart_r2_def
        uploadFileMultipart_r2_loop.simps
        uploadFileMultipartBuffered_def ReadForm_def readForm.simps CopyN_def
        maxValueBytes_def rest_def sample_UploadFile_def sample_info_def bufferedMode_def
        streamMode_def FILE_TEAM_ID_def)

end
